theory Spec2Isabelle
  imports Complex_Main
begin

section \<open>JavaScript strings\<close>

text \<open>
  A JavaScript string is modelled as a \<^typ>\<open>string\<close>: a list of code units, one
  \<^typ>\<open>char\<close> per unit. \<open>s.length\<close> is \<^const>\<open>length\<close>, \<open>s + t\<close> is append,
  \<open>s.slice(n)\<close> is \<^term>\<open>drop n s\<close> and \<open>s.slice(0, n)\<close> is \<^term>\<open>take n s\<close>.
\<close>

definition startsWith :: "string \<Rightarrow> string \<Rightarrow> bool" where
  "startsWith s p = (take (length p) s = p)"

text \<open>
  \<open>String.prototype.trim\<close> strips white space and line terminators from both ends. Of
  the code units a \<^typ>\<open>char\<close> can hold these are tab, line feed, vertical tab, form
  feed, carriage return, space and the no-break space.
\<close>

definition js_space :: "char \<Rightarrow> bool" where
  "js_space c = (c = CHR 0x09 \<or> c = CHR 0x0A \<or> c = CHR 0x0B \<or> c = CHR 0x0C
                 \<or> c = CHR 0x0D \<or> c = CHR 0x20 \<or> c = CHR 0xA0)"

definition js_trim :: "string \<Rightarrow> string" where
  "js_trim s = rev (dropWhile js_space (rev (dropWhile js_space s)))"

text \<open>\<open>s.indexOf(c)\<close> for a single code unit \<open>c\<close>, with \<^const>\<open>None\<close> for \<open>-1\<close>.\<close>

definition indexOf :: "string \<Rightarrow> char \<Rightarrow> nat option" where
  "indexOf s c =
     (let i = length (takeWhile (\<lambda>x. x \<noteq> c) s)
      in if i < length s then Some i else None)"

section \<open>JSON values\<close>

text \<open>
  What \<open>JSON.parse\<close> returns. Numbers are restricted to integers, of a magnitude
  below \<open>10\<^sup>2\<^sup>1\<close> where one is printed: no handler computes with a number of a request
  body. An object is the list of its members in source order;
  of two members with one key the later is the one a property read sees. A JavaScript
  value that may be \<open>undefined\<close> is a \<open>json option\<close>, with \<^const>\<open>None\<close> for
  \<open>undefined\<close>.
\<close>

datatype json =
  JNull | JBool bool | JNum int | JStr string | JArr "json list" | JObj "(string \<times> json) list"

definition obj_get :: "(string \<times> json) list \<Rightarrow> string \<Rightarrow> json option" where
  "obj_get kv k = map_of (rev kv) k"

text \<open>
  \<open>v?.k\<close> for the property names the handlers read (\<open>choices\<close>, \<open>delta\<close>, \<open>message\<close>,
  \<open>content\<close>, \<open>finish_reason\<close>, \<open>usage\<close> and its counts, \<open>model\<close>, \<open>input\<close>,
  \<open>role\<close>, \<open>type\<close>, \<open>text\<close>): \<open>undefined\<close> on \<open>undefined\<close> and \<open>null\<close>, the member
  of an object, and \<open>undefined\<close> on an array, a string, a number or a boolean, none of
  which has a property of these names.
\<close>

fun js_prop :: "json option \<Rightarrow> string \<Rightarrow> json option" where
  "js_prop (Some (JObj kv)) k = obj_get kv k"
| "js_prop _ k = None"

text \<open>\<open>v?.[0]\<close>: the first element of an array, the first code unit of a string.\<close>

fun js_index0 :: "json option \<Rightarrow> json option" where
  "js_index0 (Some (JArr xs)) = (case xs of [] \<Rightarrow> None | x # _ \<Rightarrow> Some x)"
| "js_index0 (Some (JStr s)) = (case s of [] \<Rightarrow> None | c # _ \<Rightarrow> Some (JStr [c]))"
| "js_index0 (Some (JObj kv)) = obj_get kv ''0''"
| "js_index0 _ = None"

text \<open>Decimal digits of a natural number, as template literals print a count or a time.\<close>

fun digits :: "nat \<Rightarrow> string" where
  "digits n = (if n < 10 then [''0123456789'' ! n]
               else digits (n div 10) @ [''0123456789'' ! (n mod 10)])"

declare digits.simps [simp del]

text \<open>\<open>Array.prototype.join\<close> on strings.\<close>

fun js_join :: "string \<Rightarrow> string list \<Rightarrow> string" where
  "js_join sep [] = []"
| "js_join sep [x] = x"
| "js_join sep (x # y # ys) = x @ sep @ js_join sep (y # ys)"

text \<open>
  \<open>String(v)\<close> on a JSON value. Inside an array, \<open>null\<close> prints as the empty string.
\<close>

fun js_String :: "json \<Rightarrow> string" where
  "js_String JNull = ''null''"
| "js_String (JBool b) = (if b then ''true'' else ''false'')"
| "js_String (JNum n) = (if n < 0 then CHR ''-'' # digits (nat (- n)) else digits (nat n))"
| "js_String (JStr s) = s"
| "js_String (JArr xs) = js_join '','' (map (\<lambda>x. if x = JNull then [] else js_String x) xs)"
| "js_String (JObj kv) = ''[object Object]''"

text \<open>A thrown value, by the message the handlers read from it.\<close>

datatype js_error = Error (message: string)

text \<open>Running a function that may throw over a list, left to right; the first throw wins.\<close>

fun map_throwing :: "('a \<Rightarrow> js_error + 'b) \<Rightarrow> 'a list \<Rightarrow> js_error + 'b list" where
  "map_throwing f [] = Inr []"
| "map_throwing f (x # xs) =
     (case f x of Inl e \<Rightarrow> Inl e
      | Inr y \<Rightarrow> (case map_throwing f xs of Inl e \<Rightarrow> Inl e | Inr ys \<Rightarrow> Inr (y # ys)))"

text \<open>\<open>xs.slice(start)\<close> for an integer \<open>start\<close>: a negative one counts from the end.\<close>

definition js_slice_from :: "int \<Rightarrow> 'a list \<Rightarrow> 'a list" where
  "js_slice_from start xs =
     (let n = int (length xs);
          k = (if start < 0 then max (n + start) 0 else min start n)
      in drop (nat k) xs)"

text \<open>
  \<open>Math.ceil(n / 4)\<close> for a string length \<open>n\<close>. The quotient is exact in double
  precision, so the result is the ceiling of the rational quotient.
\<close>

definition ceil_quarter :: "nat \<Rightarrow> int" where
  "ceil_quarter n = \<lceil>(of_nat n :: rat) / 4\<rceil>"

section \<open>Requests\<close>

text \<open>
  The part of Node's \<open>IncomingMessage\<close> the handlers read: the method, the request
  target (possibly undefined) and the header object, whose keys are lower-case names and
  whose values, for the headers read here, are single strings.
\<close>

record request =
  req_method :: string
  req_url :: "string option"
  req_headers :: "string \<rightharpoonup> string"

section \<open>src/http/auth.ts\<close>

text \<open>The two module-level variables \<open>cachedToken\<close> and \<open>cachedAuthHeader\<close>.\<close>

record auth_cache =
  cachedToken :: string
  cachedAuthHeader :: string

text \<open>
  \<open>isAuthorized(req, token)\<close>, with the module state passed in and returned. The first
  component is the boolean the function returns.
\<close>

definition isAuthorized :: "auth_cache \<Rightarrow> request \<Rightarrow> string \<Rightarrow> bool \<times> auth_cache" where
  "isAuthorized cache req token =
    (if token = [] then (False, \<lparr>cachedToken = [], cachedAuthHeader = []\<rparr>)
     else
       let cache' = (if token \<noteq> cachedToken cache
                     then \<lparr>cachedToken = token, cachedAuthHeader = ''Bearer '' @ token\<rparr>
                     else cache);
           auth = req_headers req ''authorization'';
           xApiKey = req_headers req ''x-api-key'';
           xGoogApiKey = req_headers req ''x-goog-api-key''
       in if (case auth of None \<Rightarrow> False
              | Some a \<Rightarrow> startsWith a ''Bearer '' \<and> js_trim (drop 7 a) = token)
          then (True, cache')
          else if (case xApiKey of None \<Rightarrow> False | Some k \<Rightarrow> js_trim k = token)
          then (True, cache')
          else if (case xGoogApiKey of None \<Rightarrow> False | Some k \<Rightarrow> js_trim k = token)
          then (True, cache')
          else (False, cache'))"

section \<open>src/http/formatter.ts\<close>

text \<open>
  \<open>fixBoltArtifactFormat(text)\<close>. Its body opens with \<open>return text;\<close>: the five
  rewriting steps written after that statement are never reached.
\<close>

definition fixBoltArtifactFormat :: "string \<Rightarrow> string" where
  "fixBoltArtifactFormat text = text"

section \<open>Effects of a handler\<close>

text \<open>
  What a handler does to the world, in the order it does it: the changes of the shared
  counter \<open>state.activeRequests\<close>, the calls of the response helpers
  \<open>writeErrorResponse(res, status, message, type, code, reason?)\<close> and
  \<open>writeJson(res, status, body)\<close> of \<open>src/http/utils\<close>, recorded with their arguments,
  the disposal of a model response and of a cancellation token source, and the calls on
  Node's \<open>ServerResponse\<close>: \<open>res.statusCode = n\<close>, \<open>res.setHeader(k, v)\<close>,
  \<open>writeSSE(res, event, data)\<close> and \<open>res.end()\<close> or \<open>res.end(JSON.stringify(body))\<close>.
  The last three are the calls \<open>writeTokenRequired(res)\<close>, \<open>writeUnauthorized(res)\<close>
  and \<open>writeRateLimit(res)\<close> of \<open>src/http/utils\<close>, which by the specification
  answer 401, 401 and 429. \<open>Throws\<close> is the end of a handler whose promise rejects
  with an error nothing caught. Calls of \<open>verbose\<close> and of the console are left out.
\<close>

datatype effect =
    CounterInc
  | CounterDec
  | WriteError nat string string string "string option"
  | WriteJson nat json
  | DisposeResponse
  | DisposeToken
  | SetStatus nat
  | SetHeader string string
  | SSE string json
  | End "json option"
  | WriteTokenRequired
  | WriteUnauthorized
  | WriteRateLimit
  | Throws js_error

record server_state =
  activeRequests :: int

text \<open>
  What a handler sends: its events and the end of its response. Node sends the status
  line and the headers with the first of them, so that \<open>res.headersSent\<close> holds from
  then on; \<open>res.setHeader\<close> then throws \<open>ERR_HTTP_HEADERS_SENT\<close>, while an assignment to
  \<open>res.statusCode\<close> is still accepted.
\<close>

fun is_sent :: "effect \<Rightarrow> bool" where
  "is_sent (SSE event data) = True"
| "is_sent (End body) = True"
| "is_sent _ = False"

definition headersSent :: "effect list \<Rightarrow> bool" where
  "headersSent effects = list_ex is_sent effects"

definition headers_sent_error :: js_error where
  "headers_sent_error = Error ''Cannot set headers after they are sent to the client''"

section \<open>src/http/routes/responses.ts\<close>

subsection \<open>The language-model interface of the editor\<close>

text \<open>
  A chat message of the editor's API has a role and a content. The editor declares the
  content as an array of parts (\<open>content: Array<LanguageModelInputPart>\<close>), each a
  \<open>LanguageModelTextPart\<close>, which holds its text in its \<open>value\<close>, or a tool-result or
  tool-call part, whose payload is left out. The handler reads a content back as a string,
  as an array whose items are strings or something else, or as neither.
\<close>

datatype lm_role = User | Assistant

datatype lm_part = TextPart string | ToolResultPart | ToolCallPart

datatype lm_item = StringItem string | PartItem lm_part

datatype lm_content = ContentString string | ContentArray "lm_item list" | ContentOther

record lm_message =
  msg_role :: lm_role
  msg_content :: lm_content

text \<open>
  The response of \<open>model.sendRequest\<close>: the fragments its \<open>text\<close> stream yields, the
  error the stream throws after them if it fails, and whether it has a \<open>dispose\<close>
  method.
\<close>

record lm_response =
  resp_text :: "string list"
  resp_fail :: "js_error option"
  resp_has_dispose :: bool

record model_handle =
  sendRequest :: "lm_message list \<Rightarrow> js_error + lm_response"

text \<open>
  The collaborators of the handler: \<open>readJson\<close>, \<open>getModel\<close>, \<open>hasLMApi\<close>, the
  \<open>historyWindow\<close> of the configuration, the parts that
  \<open>LanguageModelChatMessage.User\<close> and \<open>.Assistant\<close> store for a text, \<open>Date.now()\<close>
  and the two suffixes \<open>Math.random().toString(36).substring(7)\<close>.
\<close>

record ai_env =
  readJson :: "request \<Rightarrow> js_error + json"
  getModel :: "bool \<Rightarrow> string \<Rightarrow> js_error + model_handle option"
  hasLMApi :: bool
  historyWindow :: int
  chat_parts :: "string \<Rightarrow> lm_part list"
  date_now :: nat
  random_suffix1 :: string
  random_suffix2 :: string

definition LM_User :: "ai_env \<Rightarrow> string \<Rightarrow> lm_message" where
  "LM_User env t =
     \<lparr>msg_role = User, msg_content = ContentArray (map PartItem (chat_parts env t))\<rparr>"

definition LM_Assistant :: "ai_env \<Rightarrow> string \<Rightarrow> lm_message" where
  "LM_Assistant env t =
     \<lparr>msg_role = Assistant, msg_content = ContentArray (map PartItem (chat_parts env t))\<rparr>"

subsection \<open>Validation\<close>

text \<open>\<open>typeof v === 'object'\<close> on a value that is not \<open>null\<close>.\<close>

fun is_object :: "json \<Rightarrow> bool" where
  "is_object (JArr _) = True"
| "is_object (JObj _) = True"
| "is_object _ = False"

fun is_string :: "json option \<Rightarrow> bool" where
  "is_string (Some (JStr _)) = True"
| "is_string _ = False"

fun is_array :: "json option \<Rightarrow> bool" where
  "is_array (Some (JArr _)) = True"
| "is_array _ = False"

text \<open>The predicate \<open>isAiSdkRequest\<close> passes to \<open>req.input.every\<close>.\<close>

definition valid_message :: "json \<Rightarrow> bool" where
  "valid_message msg =
     (is_object msg
      \<and> js_prop (Some msg) ''role'' \<noteq> None
      \<and> js_prop (Some msg) ''content'' \<noteq> None
      \<and> (is_string (js_prop (Some msg) ''content'') \<or> is_array (js_prop (Some msg) ''content'')))"

definition isAiSdkRequest :: "json \<Rightarrow> bool" where
  "isAiSdkRequest body =
     (if \<not> is_object body then False
      else is_string (js_prop (Some body) ''model'')
           \<and> (case js_prop (Some body) ''input'' of
                 Some (JArr msgs) \<Rightarrow> list_all valid_message msgs
               | _ \<Rightarrow> False))"

text \<open>
  \<open>body.model\<close> and \<open>body.input\<close> of a body that passed \<open>isAiSdkRequest\<close>; the last
  case of each is not reached on such a body.
\<close>

definition body_model :: "json \<Rightarrow> string" where
  "body_model body = (case js_prop (Some body) ''model'' of Some (JStr m) \<Rightarrow> m | _ \<Rightarrow> [])"

definition body_input :: "json \<Rightarrow> json list" where
  "body_input body = (case js_prop (Some body) ''input'' of Some (JArr msgs) \<Rightarrow> msgs | _ \<Rightarrow> [])"

subsection \<open>Normalization\<close>

text \<open>
  The filter of \<open>extractTextContent\<close>. Reading \<open>part.type\<close> of a \<open>null\<close> part throws
  a TypeError.
\<close>

definition null_part_error :: js_error where
  "null_part_error = Error ''Cannot read properties of null (reading 'type')''"

definition is_text_part :: "json \<Rightarrow> bool" where
  "is_text_part part =
     (js_prop (Some part) ''type'' = Some (JStr ''input_text'')
      \<or> js_prop (Some part) ''type'' = Some (JStr ''output_text''))"

fun filter_text_parts :: "json list \<Rightarrow> js_error + json list" where
  "filter_text_parts [] = Inr []"
| "filter_text_parts (part # parts) =
     (if part = JNull then Inl null_part_error
      else case filter_text_parts parts of
             Inl e \<Rightarrow> Inl e
           | Inr kept \<Rightarrow> Inr (if is_text_part part then part # kept else kept))"

text \<open>What \<open>join\<close> prints for one \<open>part.text\<close>: nothing for \<open>undefined\<close> and \<open>null\<close>.\<close>

fun joined_text :: "json option \<Rightarrow> string" where
  "joined_text None = []"
| "joined_text (Some JNull) = []"
| "joined_text (Some v) = js_String v"

definition content_not_array_error :: js_error where
  "content_not_array_error = Error ''content.filter is not a function''"

fun extractTextContent :: "json \<Rightarrow> js_error + string" where
  "extractTextContent (JStr s) = Inr s"
| "extractTextContent (JArr parts) =
     (case filter_text_parts parts of
        Inl e \<Rightarrow> Inl e
      | Inr kept \<Rightarrow> Inr (js_join [] (map (\<lambda>part. joined_text (js_prop (Some part) ''text'')) kept)))"
| "extractTextContent _ = Inl content_not_array_error"

text \<open>\<open>msg.content\<close> of a message that passed validation.\<close>

definition message_content :: "json \<Rightarrow> json" where
  "message_content msg = (case js_prop (Some msg) ''content'' of Some c \<Rightarrow> c | None \<Rightarrow> JNull)"

text \<open>The function \<open>convertAiSdkMessagesToLM\<close> maps over the messages.\<close>

definition convert_message :: "ai_env \<Rightarrow> json \<Rightarrow> js_error + lm_message" where
  "convert_message env msg =
     (case extractTextContent (message_content msg) of
        Inl e \<Rightarrow> Inl e
      | Inr textContent \<Rightarrow>
          Inr (let role = js_prop (Some msg) ''role'' in
               if role = Some (JStr ''system'') then LM_User env textContent
               else if role = Some (JStr ''user'') then LM_User env textContent
               else if role = Some (JStr ''assistant'') then LM_Assistant env textContent
               else LM_User env textContent))"

definition convertAiSdkMessagesToLM :: "ai_env \<Rightarrow> json list \<Rightarrow> js_error + lm_message list" where
  "convertAiSdkMessagesToLM env messages = map_throwing (convert_message env) messages"

subsection \<open>The handler\<close>

text \<open>
  The text the usage estimate reads back from one message sent to the model: a string
  content, or the items of an array content that are strings, with the empty string for
  every item that is not.
\<close>

fun content_text :: "lm_content \<Rightarrow> string" where
  "content_text (ContentString s) = s"
| "content_text (ContentArray items) =
     js_join [] (map (\<lambda>p. case p of StringItem s \<Rightarrow> s | PartItem part \<Rightarrow> []) items)"
| "content_text ContentOther = []"

definition aiSdkResponse :: "ai_env \<Rightarrow> string \<Rightarrow> string \<Rightarrow> int \<Rightarrow> int \<Rightarrow> json" where
  "aiSdkResponse env model fullContent inputTokens outputTokens =
     (let nowMs = date_now env; nowSec = nowMs div 1000 in
      JObj [(''id'', JStr (''resp_'' @ digits nowMs @ ''_'' @ random_suffix1 env)),
            (''model'', JStr model),
            (''object'', JStr ''response''),
            (''created'', JNum (int nowSec)),
            (''created_at'', JNum (int nowSec)),
            (''output'', JArr [JObj
               [(''id'', JStr (''msg_'' @ digits nowMs @ ''_'' @ random_suffix2 env)),
                (''type'', JStr ''message''),
                (''role'', JStr ''assistant''),
                (''content'', JArr [JObj
                   [(''type'', JStr ''output_text''),
                    (''text'', JStr fullContent),
                    (''annotations'', JArr [])]])]]),
            (''usage'', JObj
               [(''input_tokens'', JNum inputTokens),
                (''output_tokens'', JNum outputTokens),
                (''total_tokens'', JNum (inputTokens + outputTokens))])])"

text \<open>
  The loop over \<open>response.text\<close> with its \<open>finally\<close>: the text collected, or the error
  the stream threw, and the disposal of the response.
\<close>

definition collect_response :: "lm_response \<Rightarrow> (js_error + string) \<times> effect list" where
  "collect_response response =
     (case resp_fail response of None \<Rightarrow> Inr (concat (resp_text response)) | Some e \<Rightarrow> Inl e,
      if resp_has_dispose response then [DisposeResponse] else [])"

text \<open>
  The statements inside the outer \<open>try\<close>: their effects, and the error that reaches the
  \<open>catch\<close> clause, if any.
\<close>

definition aiSdk_try :: "ai_env \<Rightarrow> request \<Rightarrow> effect list \<times> js_error option" where
  "aiSdk_try env req =
     (case readJson env req of
        Inl e \<Rightarrow> ([], Some e)
      | Inr body \<Rightarrow>
          if \<not> isAiSdkRequest body
          then ([WriteError 400 ''invalid request format'' ''invalid_request_error''
                   ''invalid_payload'' None], None)
          else
            (case getModel env False (body_model body) of
               Inl e \<Rightarrow> ([], Some e)
             | Inr None \<Rightarrow>
                 (let hasLanguageModels = hasLMApi env in
                  if body_model body \<noteq> [] \<and> hasLanguageModels
                  then ([WriteError 404 ''model not found'' ''invalid_request_error''
                           ''model_not_found'' (Some ''not_found'')], None)
                  else
                    (let reason = (if hasLanguageModels then ''copilot_model_unavailable''
                                   else ''missing_language_model_api'')
                     in ([WriteError 503 ''Copilot unavailable'' ''server_error''
                            ''copilot_unavailable'' (Some reason)], None)))
             | Inr (Some model) \<Rightarrow>
                 (case convertAiSdkMessagesToLM env (body_input body) of
                    Inl e \<Rightarrow> ([], Some e)
                  | Inr lmMessages \<Rightarrow>
                      (let recentMessages = js_slice_from (- historyWindow env * 2) lmMessages in
                       case sendRequest model recentMessages of
                         Inl e \<Rightarrow> ([DisposeToken], Some e)
                       | Inr response \<Rightarrow>
                           (case collect_response response of
                              (Inl e, disposed) \<Rightarrow> (disposed @ [DisposeToken], Some e)
                            | (Inr fullContent, disposed) \<Rightarrow>
                                (let inputText = js_join []
                                       (map (\<lambda>m. content_text (msg_content m)) recentMessages);
                                     inputTokens = ceil_quarter (length inputText);
                                     outputTokens = ceil_quarter (length fullContent)
                                 in (disposed
                                     @ [WriteJson 200 (aiSdkResponse env (body_model body)
                                          fullContent inputTokens outputTokens)]
                                     @ [DisposeToken], None)))))))"

text \<open>
  \<open>handleAiSdkResponse(req, res)\<close>: the counter goes up, the \<open>try\<close> block runs, the
  \<open>catch\<close> clause answers 500 for a thrown error, and the \<open>finally\<close> clause takes the
  counter down.
\<close>

definition handleAiSdkResponse ::
  "ai_env \<Rightarrow> request \<Rightarrow> server_state \<Rightarrow> effect list \<times> server_state" where
  "handleAiSdkResponse env req s =
     (let s1 = s\<lparr>activeRequests := activeRequests s + 1\<rparr>;
          (effects, thrown) = aiSdk_try env req;
          caught = (case thrown of
                      None \<Rightarrow> []
                    | Some e \<Rightarrow>
                        [WriteError 500 (if message e = [] then ''internal_error'' else message e)
                           ''server_error'' ''internal_error'' None]);
          s2 = s1\<lparr>activeRequests := activeRequests s1 - 1\<rparr>
      in (CounterInc # effects @ caught @ [CounterDec], s2))"

section \<open>src/http/routes/anthropic.ts\<close>

subsection \<open>Request and upstream call\<close>

text \<open>
  The request body as the interface \<open>AnthropicRequest\<close> declares it, with the fields
  the handler treats as optional as options. The role of a message and the type of a
  content part are any strings: the handler tests both.
\<close>

record anthropic_part =
  part_type :: string
  part_text :: string

datatype anthropic_content = StringContent string | PartsContent "anthropic_part list"

record anthropic_msg =
  a_role :: string
  a_content :: anthropic_content

record anthropic_request =
  a_model :: string
  a_system :: "string option"
  a_messages :: "anthropic_msg list option"
  a_max_tokens :: "int option"
  a_temperature :: "rat option"
  a_stream :: "bool option"

record chat_message =
  cm_role :: string
  cm_content :: string

text \<open>
  The body the adapter posts to \<open>/v1/chat/completions\<close>, and the call of \<open>fetch\<close> that
  carries it: a POST with a JSON content type, to \<open>f_url\<close>, with the \<open>authorization\<close>
  header \<open>f_authorization\<close>.
\<close>

record chat_request =
  cr_model :: string
  cr_messages :: "chat_message list"
  cr_stream :: bool
  cr_temperature :: rat
  cr_max_tokens :: "int option"

record fetch_call =
  f_url :: string
  f_authorization :: string
  f_body :: chat_request

text \<open>
  The response of \<open>fetch\<close>: the status, the chunks its body delivers if it has a body,
  and the error that reading the body throws after these chunks, if it fails.
\<close>

record http_response =
  h_status :: nat
  h_body :: "string list option"
  h_read_fail :: "js_error option"

definition resp_ok :: "http_response \<Rightarrow> bool" where
  "resp_ok resp = (200 \<le> h_status resp \<and> h_status resp \<le> 299)"

text \<open>\<open>await resp.text().catch(() => '')\<close>\<close>

definition resp_text_or_empty :: "http_response \<Rightarrow> string" where
  "resp_text_or_empty resp =
     (case h_read_fail resp of
        Some e \<Rightarrow> []
      | None \<Rightarrow> (case h_body resp of None \<Rightarrow> [] | Some chunks \<Rightarrow> concat chunks))"

text \<open>
  The collaborators of the adapter: \<open>fetch\<close>, \<open>JSON.parse\<close> (\<^const>\<open>None\<close> when it
  throws), the promise that reads and parses the request body, \<open>Date.now()\<close>, the
  \<open>stack\<close> of an error, and the error \<open>JSON.parse\<close> throws.
\<close>

record a_env =
  fetch :: "fetch_call \<Rightarrow> js_error + http_response"
  json_parse :: "string \<Rightarrow> json option"
  read_body :: "request \<Rightarrow> js_error + anthropic_request"
  now_ms :: nat
  error_stack :: "js_error \<Rightarrow> string"
  syntax_error :: js_error

text \<open>\<open>await resp.json()\<close>\<close>

definition resp_json :: "a_env \<Rightarrow> http_response \<Rightarrow> js_error + json" where
  "resp_json env resp =
     (case h_read_fail resp of
        Some e \<Rightarrow> Inl e
      | None \<Rightarrow>
          (case json_parse env (case h_body resp of None \<Rightarrow> [] | Some chunks \<Rightarrow> concat chunks) of
             None \<Rightarrow> Inl (syntax_error env)
           | Some j \<Rightarrow> Inr j))"

subsection \<open>Helpers\<close>

definition getBearerOrXApiKey :: "request \<Rightarrow> string option" where
  "getBearerOrXApiKey req =
     (let auth = req_headers req ''authorization'';
          fromAuth = (case auth of
                        None \<Rightarrow> None
                      | Some a \<Rightarrow>
                          if startsWith a ''Bearer ''
                          then (let v = js_trim (drop 7 a) in if v \<noteq> [] then Some v else None)
                          else None)
      in case fromAuth of
           Some v \<Rightarrow> Some v
         | None \<Rightarrow>
             (case req_headers req ''x-api-key'' of
                None \<Rightarrow> None
              | Some k \<Rightarrow> (let v = js_trim k in if v \<noteq> [] then Some v else None)))"

definition toOpenAIMessages :: "chat_message list \<Rightarrow> string option \<Rightarrow> chat_message list" where
  "toOpenAIMessages coreMessages system =
     (case system of
        None \<Rightarrow> []
      | Some sys \<Rightarrow>
          if sys \<noteq> [] \<and> length (js_trim sys) > 0
          then [\<lparr>cm_role = ''system'', cm_content = sys\<rparr>] else [])
     @ map (\<lambda>m. \<lparr>cm_role = cm_role m, cm_content = cm_content m\<rparr>) coreMessages"

definition getOrigin :: "request \<Rightarrow> string" where
  "getOrigin req =
     (let host = (case req_headers req ''host'' of
                    None \<Rightarrow> ''127.0.0.1:9527''
                  | Some h \<Rightarrow> if h \<noteq> [] then h else ''127.0.0.1:9527'')
      in ''http://'' @ host)"

text \<open>The options record both upstream calls take.\<close>

record lm_opts =
  o_system :: "string option"
  o_model :: string
  o_token :: string
  o_maxTokens :: "int option"
  o_temperature :: "rat option"
  o_req :: request

definition upstream_call :: "chat_message list \<Rightarrow> lm_opts \<Rightarrow> bool \<Rightarrow> fetch_call" where
  "upstream_call coreMessages opts stream =
     \<lparr>f_url = getOrigin (o_req opts) @ ''/v1/chat/completions'',
      f_authorization = ''Bearer '' @ o_token opts,
      f_body = \<lparr>cr_model = o_model opts,
                cr_messages = toOpenAIMessages coreMessages (o_system opts),
                cr_stream = stream,
                cr_temperature = (case o_temperature opts of None \<Rightarrow> 0 | Some t \<Rightarrow> t),
                cr_max_tokens = o_maxTokens opts\<rparr>\<rparr>"

text \<open>The error both upstream calls throw for a response they do not accept.\<close>

definition upstream_error :: "string \<Rightarrow> http_response \<Rightarrow> js_error" where
  "upstream_error what resp =
     (let txt = resp_text_or_empty resp in
      if h_status resp = 401
      then Error (''Upstream /v1/chat/completions unauthorized: '' @ txt)
      else Error (''Upstream /v1/chat/completions '' @ what @ '': ''
                  @ digits (h_status resp) @ '' '' @ txt))"

subsection \<open>The buffered upstream call\<close>

text \<open>\<open>v ?? ''\<close>\<close>

fun or_empty :: "json option \<Rightarrow> json" where
  "or_empty None = JStr []"
| "or_empty (Some JNull) = JStr []"
| "or_empty (Some v) = v"

definition runLMFull :: "a_env \<Rightarrow> chat_message list \<Rightarrow> lm_opts \<Rightarrow> js_error + string" where
  "runLMFull env coreMessages opts =
     (case fetch env (upstream_call coreMessages opts False) of
        Inl e \<Rightarrow> Inl e
      | Inr resp \<Rightarrow>
          if \<not> resp_ok resp then Inl (upstream_error ''failed'' resp)
          else
            (case resp_json env resp of
               Inl e \<Rightarrow> Inl e
             | Inr json \<Rightarrow>
                 (let content = or_empty
                        (js_prop (js_prop (js_index0 (js_prop (Some json) ''choices''))
                           ''message'') ''content'')
                  in Inr (case content of JStr c \<Rightarrow> c | _ \<Rightarrow> js_String (or_empty (Some content))))))"

subsection \<open>The streaming upstream call\<close>

text \<open>
  The \<open>try\<close> block of the inner loop: the text to yield for one payload, if any. A
  payload that does not parse is ignored.
\<close>

definition chunk_text :: "a_env \<Rightarrow> string \<Rightarrow> string option" where
  "chunk_text env payload =
     (case json_parse env payload of
        None \<Rightarrow> None
      | Some evt \<Rightarrow>
          (let delta = js_prop (js_index0 (js_prop (Some evt) ''choices'')) ''delta'';
               text = or_empty (js_prop delta ''content'')
           in case text of
                JStr t \<Rightarrow> if length t > 0 then Some t else None
              | _ \<Rightarrow> None))"

text \<open>\<open>buffer.indexOf('\n')\<close>\<close>

definition indexOf_newline :: "string \<Rightarrow> nat option" where
  "indexOf_newline buffer = indexOf buffer (CHR 0x0A)"

text \<open>
  The inner \<open>while\<close> loop on the buffer: the texts it yields, and the buffer it leaves
  behind, or \<^const>\<open>None\<close> when it reached the \<open>return\<close> that ends the generator.
\<close>

function drain :: "a_env \<Rightarrow> string \<Rightarrow> string list \<times> string option" where
  "drain env buffer =
     (case indexOf_newline buffer of
        None \<Rightarrow> ([], Some buffer)
      | Some idx \<Rightarrow>
          (let line = js_trim (take idx buffer);
               rest = drop (idx + 1) buffer
           in if \<not> startsWith line ''data:'' then drain env rest
              else
                (let payload = js_trim (drop 5 line) in
                 if payload = [] \<or> payload = ''[DONE]'' then ([], None)
                 else
                   (case chunk_text env payload of
                      None \<Rightarrow> drain env rest
                    | Some t \<Rightarrow> (case drain env rest of (ys, b) \<Rightarrow> (t # ys, b))))))"
  by pat_completeness auto
termination
  by (relation "measure (\<lambda>(env, buffer). length buffer)")
     (auto simp: indexOf_newline_def indexOf_def Let_def split: if_splits)

declare drain.simps [simp del]

text \<open>
  The outer loop on \<open>reader.read()\<close>, over the chunks of the body as the decoder
  returns them: the texts yielded, and the error thrown, if any.
\<close>

fun read_loop ::
  "a_env \<Rightarrow> string \<Rightarrow> string list \<Rightarrow> js_error option \<Rightarrow> string list \<times> js_error option" where
  "read_loop env buffer [] fail = ([], fail)"
| "read_loop env buffer (v # vs) fail =
     (case drain env (buffer @ v) of
        (ys, None) \<Rightarrow> (ys, None)
      | (ys, Some buffer') \<Rightarrow>
          (case read_loop env buffer' vs fail of (zs, e) \<Rightarrow> (ys @ zs, e)))"

text \<open>
  \<open>runLMStream\<close>: the strings the generator yields, in order, and the error that ends
  it, if it throws.
\<close>

definition runLMStream ::
  "a_env \<Rightarrow> chat_message list \<Rightarrow> lm_opts \<Rightarrow> string list \<times> js_error option" where
  "runLMStream env coreMessages opts =
     (case fetch env (upstream_call coreMessages opts True) of
        Inl e \<Rightarrow> ([], Some e)
      | Inr resp \<Rightarrow>
          (case h_body resp of
             None \<Rightarrow> ([], Some (upstream_error ''stream failed'' resp))
           | Some chunks \<Rightarrow>
               if \<not> resp_ok resp then ([], Some (upstream_error ''stream failed'' resp))
               else read_loop env [] chunks (h_read_fail resp)))"

subsection \<open>The handler\<close>

fun toText :: "anthropic_content \<Rightarrow> string" where
  "toText (StringContent c) = c"
| "toText (PartsContent []) = []"
| "toText (PartsContent (p # ps)) = (if part_type p = ''text'' then part_text p else [])"

definition coreMessages_of :: "anthropic_request \<Rightarrow> chat_message list" where
  "coreMessages_of body =
     map (\<lambda>m. \<lparr>cm_role = a_role m, cm_content = toText (a_content m)\<rparr>)
       (filter (\<lambda>m. a_role m = ''user'' \<or> a_role m = ''assistant'')
          (case a_messages body of None \<Rightarrow> [] | Some ms \<Rightarrow> ms))"

definition opts_of :: "anthropic_request \<Rightarrow> string \<Rightarrow> request \<Rightarrow> lm_opts" where
  "opts_of body token req =
     \<lparr>o_system = Some (case a_system body of None \<Rightarrow> [] | Some s \<Rightarrow> s),
      o_model = a_model body, o_token = token, o_maxTokens = a_max_tokens body,
      o_temperature = a_temperature body, o_req = req\<rparr>"

definition unauthorized_body :: json where
  "unauthorized_body =
     JObj [(''error'', JObj [(''message'', JStr ''unauthorized''),
                             (''type'', JStr ''invalid_request_error''),
                             (''code'', JStr ''unauthorized'')])]"

definition message_body :: "string \<Rightarrow> string \<Rightarrow> string \<Rightarrow> json" where
  "message_body nowId model formattedText =
     JObj [(''id'', JStr nowId),
           (''type'', JStr ''message''),
           (''role'', JStr ''assistant''),
           (''model'', JStr model),
           (''content'', JArr [JObj [(''type'', JStr ''text''), (''text'', JStr formattedText)]]),
           (''stop_reason'', JStr ''end_turn''),
           (''usage'', JObj [(''input_tokens'', JNum 0), (''output_tokens'', JNum 0)])]"

definition message_start :: "string \<Rightarrow> string \<Rightarrow> effect" where
  "message_start msg_id model =
     SSE ''message_start''
       (JObj [(''type'', JStr ''message_start''),
              (''message'', JObj [(''id'', JStr msg_id), (''type'', JStr ''message''),
                                  (''role'', JStr ''assistant''), (''model'', JStr model)])])"

definition content_block_start :: effect where
  "content_block_start =
     SSE ''content_block_start''
       (JObj [(''type'', JStr ''content_block_start''), (''index'', JNum 0),
              (''content_block'', JObj [(''type'', JStr ''text''), (''text'', JStr [])])])"

definition content_block_delta :: "string \<Rightarrow> effect" where
  "content_block_delta tokenChunk =
     SSE ''content_block_delta''
       (JObj [(''type'', JStr ''content_block_delta''), (''index'', JNum 0),
              (''delta'', JObj [(''type'', JStr ''text_delta''), (''text'', JStr tokenChunk)])])"

definition content_block_stop :: effect where
  "content_block_stop =
     SSE ''content_block_stop'' (JObj [(''type'', JStr ''content_block_stop''), (''index'', JNum 0)])"

definition message_delta :: effect where
  "message_delta =
     SSE ''message_delta''
       (JObj [(''type'', JStr ''message_delta''),
              (''delta'', JObj [(''stop_reason'', JStr ''end_turn'')])])"

definition message_stop :: effect where
  "message_stop = SSE ''message_stop'' (JObj [(''type'', JStr ''message_stop'')])"

text \<open>
  The statements inside the \<open>try\<close>: their effects, and the error that reaches the
  \<open>catch\<close> clause, if any. The text accumulated in \<open>fullText\<close> while streaming is only
  compared with its sanitized form for a log line.
\<close>

definition anthropic_try :: "a_env \<Rightarrow> request \<Rightarrow> effect list \<times> js_error option" where
  "anthropic_try env req =
     (case getBearerOrXApiKey req of
        None \<Rightarrow>
          ([SetStatus 401, SetHeader ''content-type'' ''application/json'',
            End (Some unauthorized_body)], None)
      | Some token \<Rightarrow>
          (case read_body env req of
             Inl e \<Rightarrow> ([], Some e)
           | Inr body \<Rightarrow>
               (let coreMessages = coreMessages_of body;
                    opts = opts_of body token req;
                    stream = (case a_stream body of None \<Rightarrow> True | Some b \<Rightarrow> b)
                in if \<not> stream
                   then
                     (case runLMFull env coreMessages opts of
                        Inl e \<Rightarrow> ([], Some e)
                      | Inr fullText \<Rightarrow>
                          (let formattedText = fixBoltArtifactFormat fullText;
                               nowId = ''msg_'' @ digits (now_ms env)
                           in ([SetStatus 200, SetHeader ''content-type'' ''application/json'',
                                End (Some (message_body nowId (a_model body) formattedText))],
                               None)))
                   else
                     (let msg_id = ''msg_'' @ digits (now_ms env);
                          (chunks, thrown) = runLMStream env coreMessages opts
                      in ([SetStatus 200,
                           SetHeader ''content-type'' ''text/event-stream; charset=utf-8'',
                           SetHeader ''cache-control'' ''no-cache, no-transform'',
                           SetHeader ''connection'' ''keep-alive'',
                           message_start msg_id (a_model body),
                           content_block_start]
                          @ map content_block_delta (filter (\<lambda>tokenChunk. tokenChunk \<noteq> []) chunks)
                          @ (case thrown of
                               Some e \<Rightarrow> []
                             | None \<Rightarrow> [content_block_stop, message_delta, message_stop, End None]),
                          thrown)))))"

definition error_body :: "a_env \<Rightarrow> js_error \<Rightarrow> json" where
  "error_body env err =
     JObj [(''error'', JObj [(''message'', JStr (message err)),
                             (''type'', JStr ''server_error''),
                             (''details'', JStr (error_stack env err))])]"

text \<open>
  \<open>anthropicMessages(req, res)\<close>. The \<open>catch\<close> clause sets the status 500 and then
  calls \<open>res.setHeader\<close>. When the \<open>try\<close> block has sent nothing yet, it goes on to
  end the response with the error body. When events have been sent, which is so for every
  error of the streaming branch, \<open>res.setHeader\<close> throws: \<open>res.end\<close> is not reached
  and the promise of the handler rejects.
\<close>

definition anthropicMessages :: "a_env \<Rightarrow> request \<Rightarrow> effect list" where
  "anthropicMessages env req =
     (case anthropic_try env req of
        (effects, None) \<Rightarrow> effects
      | (effects, Some err) \<Rightarrow>
          if headersSent effects
          then effects @ [SetStatus 500, Throws headers_sent_error]
          else effects @ [SetStatus 500, SetHeader ''content-type'' ''application/json'',
                          End (Some (error_body env err))])"

text \<open>
  \<open>writeSSE(res, event, data)\<close> on the wire: the two strings it writes, given
  \<open>JSON.stringify\<close>.
\<close>

definition writeSSE :: "(json \<Rightarrow> string) \<Rightarrow> string \<Rightarrow> json \<Rightarrow> string list" where
  "writeSSE stringify event data =
     [''event: '' @ event @ [CHR 0x0A],
      ''data: '' @ stringify data @ [CHR 0x0A, CHR 0x0A]]"

subsection \<open>The generic chat endpoint behind the adapter\<close>

text \<open>
  Modelled from the spec: the handler of \<open>POST /v1/chat/completions\<close>
  (\<open>src/http/routes/chat.ts\<close>), which is not among the sources. The spec gives its
  result as the full text, or as a sequence of text fragments framed on the wire as
  newline-delimited \<open>data: <json>\<close> events ended by a literal \<open>[DONE]\<close> sentinel, each
  payload carrying the incremental text; whoever consumes the fragments concatenates them
  in order to reconstruct the full text. For the fragments \<open>fs\<close> delivered by the model,
  the endpoint answers a streaming call with one event per fragment and the sentinel, and
  a buffered call with a completion whose message content is the concatenation of \<open>fs\<close>.
  \<open>stringify\<close> is \<open>JSON.stringify\<close>, and \<open>split\<close> is how the network cuts the body
  into chunks.
\<close>

definition chunk_json :: "string \<Rightarrow> json" where
  "chunk_json f = JObj [(''choices'', JArr [JObj [(''delta'', JObj [(''content'', JStr f)])]])]"

definition completion_json :: "string \<Rightarrow> json" where
  "completion_json t = JObj [(''choices'', JArr [JObj [(''message'', JObj [(''content'', JStr t)])]])]"

definition sse_stream :: "(json \<Rightarrow> string) \<Rightarrow> string list \<Rightarrow> string" where
  "sse_stream stringify fs =
     concat (map (\<lambda>f. ''data: '' @ stringify (chunk_json f) @ [CHR 0x0A, CHR 0x0A]) fs)
     @ ''data: [DONE]'' @ [CHR 0x0A, CHR 0x0A]"

definition chat_endpoint ::
  "(json \<Rightarrow> string) \<Rightarrow> (string \<Rightarrow> string list) \<Rightarrow> string list \<Rightarrow> fetch_call
   \<Rightarrow> js_error + http_response" where
  "chat_endpoint stringify split fs call =
     Inr \<lparr>h_status = 200,
          h_body = Some (split (if cr_stream (f_body call) then sse_stream stringify fs
                                else stringify (completion_json (concat fs)))),
          h_read_fail = None\<rparr>"

text \<open>
  What \<open>JSON.stringify\<close> prints for an object: one line, from \<open>{\<close> to \<open>}\<close>.
\<close>

definition object_text :: "string \<Rightarrow> bool" where
  "object_text p = (p \<noteq> [] \<and> hd p = CHR ''{'' \<and> last p = CHR ''}'' \<and> CHR 0x0A \<notin> set p)"

subsection \<open>Reading a response back\<close>

text \<open>
  The text a client reads from the streamed frames: the concatenation, in order, of the
  texts of the \<open>content_block_delta\<close> events.
\<close>

fun delta_text :: "effect \<Rightarrow> string" where
  "delta_text (SSE event data) =
     (if event = ''content_block_delta''
      then (case js_prop (js_prop (Some data) ''delta'') ''text'' of
              Some (JStr t) \<Rightarrow> t | _ \<Rightarrow> [])
      else [])"
| "delta_text _ = []"

definition streamed_text :: "effect list \<Rightarrow> string" where
  "streamed_text effects = concat (map delta_text effects)"

text \<open>
  The text a client reads from a buffered answer: the text of the first content block of
  the body the response ends with.
\<close>

fun block_text :: "effect \<Rightarrow> string option" where
  "block_text (End (Some body)) =
     (case js_prop (js_index0 (js_prop (Some body) ''content'')) ''text'' of
        Some (JStr t) \<Rightarrow> Some t | _ \<Rightarrow> None)"
| "block_text _ = None"

definition buffered_text :: "effect list \<Rightarrow> string option" where
  "buffered_text effects =
     (case List.map_filter block_text effects of [t] \<Rightarrow> Some t | _ \<Rightarrow> None)"

text \<open>A field of the \<open>usage\<close> object of a response body.\<close>

definition usage_field :: "json \<Rightarrow> string \<Rightarrow> json option" where
  "usage_field j k = js_prop (js_prop (Some j) ''usage'') k"

text \<open>
  The event stream the specification asks of streaming mode, for the fragments received:
  \<open>message_start\<close>, \<open>content_block_start\<close>, one \<open>content_block_delta\<close> per fragment,
  \<open>content_block_stop\<close>, \<open>message_delta\<close>, \<open>message_stop\<close>, and the close of the
  connection.
\<close>

definition stream_protocol :: "string \<Rightarrow> string \<Rightarrow> string list \<Rightarrow> effect list" where
  "stream_protocol msg_id model fragments =
     [message_start msg_id model, content_block_start]
     @ map content_block_delta fragments
     @ [content_block_stop, message_delta, message_stop, End None]"

section \<open>src/http/routes/gemini.ts\<close>

subsection \<open>Request and upstream call\<close>

text \<open>
  The request body as the interface \<open>GeminiRequest\<close> declares it, with the fields the
  handler reads through \<open>?.\<close> or tests as options.
\<close>

record gemini_part =
  g_text :: "string option"

record gemini_content =
  g_role :: "string option"
  g_parts :: "gemini_part list option"

record generation_config =
  gc_temperature :: "rat option"
  gc_maxOutputTokens :: "int option"
  gc_topP :: "rat option"
  gc_topK :: "int option"

record gemini_request =
  g_contents :: "gemini_content list option"
  g_generationConfig :: "generation_config option"

text \<open>The \<open>openaiRequest\<close> object, and the call of \<open>fetch\<close> that posts it.\<close>

record openai_request =
  oa_model :: string
  oa_messages :: "chat_message list"
  oa_temperature :: rat
  oa_max_tokens :: "int option"
  oa_top_p :: "rat option"
  oa_stream :: bool

record gemini_fetch_call =
  gf_url :: string
  gf_authorization :: string
  gf_body :: openai_request

text \<open>
  The collaborators of the handler: \<open>fetch\<close>, \<open>JSON.parse\<close> and the error it throws,
  \<open>readJson\<close> of \<open>src/http/utils\<close>, \<open>URLSearchParams.get\<close> on a query string, and
  \<open>String.prototype.toUpperCase\<close>.
\<close>

record g_env =
  g_fetch :: "gemini_fetch_call \<Rightarrow> js_error + http_response"
  g_json_parse :: "string \<Rightarrow> json option"
  g_syntax_error :: js_error
  g_readJson :: "request \<Rightarrow> js_error + gemini_request"
  searchParams_get :: "string \<Rightarrow> string \<Rightarrow> string option"
  toUpperCase :: "string \<Rightarrow> string"

subsection \<open>Credential\<close>

definition getBearerToken :: "g_env \<Rightarrow> request \<Rightarrow> string option" where
  "getBearerToken env req =
     (let auth = req_headers req ''authorization'';
          fromAuth = (case auth of
                        None \<Rightarrow> None
                      | Some a \<Rightarrow>
                          if startsWith a ''Bearer ''
                          then (let v = js_trim (drop 7 a) in if v \<noteq> [] then Some v else None)
                          else None)
      in case fromAuth of
           Some v \<Rightarrow> Some v
         | None \<Rightarrow>
             (let url = (case req_url req of None \<Rightarrow> [] | Some u \<Rightarrow> u) in
              case indexOf url (CHR ''?'') of
                None \<Rightarrow> None
              | Some queryStart \<Rightarrow>
                  (let queryString = drop (queryStart + 1) url in
                   case searchParams_get env queryString ''key'' of
                     None \<Rightarrow> None
                   | Some key \<Rightarrow> if key \<noteq> [] then Some key else None)))"

subsection \<open>Normalization\<close>

text \<open>The two expressions inside \<open>geminiReq.contents?.map\<close>.\<close>

definition gemini_role :: "string option \<Rightarrow> string" where
  "gemini_role role =
     (if role = Some ''model'' then ''assistant''
      else (case role of None \<Rightarrow> ''user'' | Some r \<Rightarrow> if r \<noteq> [] then r else ''user''))"

definition gemini_text :: "gemini_part list option \<Rightarrow> string" where
  "gemini_text parts =
     (case parts of
        None \<Rightarrow> []
      | Some ps \<Rightarrow>
          js_join [CHR 0x0A]
            (map (\<lambda>p. case g_text p of None \<Rightarrow> [] | Some t \<Rightarrow> t)
               (filter (\<lambda>p. case g_text p of None \<Rightarrow> False | Some t \<Rightarrow> t \<noteq> []) ps)))"

definition gemini_messages :: "gemini_request \<Rightarrow> chat_message list" where
  "gemini_messages geminiReq =
     (case g_contents geminiReq of
        None \<Rightarrow> []
      | Some contents \<Rightarrow>
          map (\<lambda>content. \<lparr>cm_role = gemini_role (g_role content),
                           cm_content = gemini_text (g_parts content)\<rparr>) contents)"

definition openaiRequest_of :: "gemini_request \<Rightarrow> string \<Rightarrow> openai_request" where
  "openaiRequest_of geminiReq modelName =
     \<lparr>oa_model = modelName,
      oa_messages = gemini_messages geminiReq,
      oa_temperature =
        (case g_generationConfig geminiReq of
           None \<Rightarrow> 7 / 10
         | Some gc \<Rightarrow> (case gc_temperature gc of None \<Rightarrow> 7 / 10 | Some t \<Rightarrow> t)),
      oa_max_tokens =
        (case g_generationConfig geminiReq of None \<Rightarrow> None | Some gc \<Rightarrow> gc_maxOutputTokens gc),
      oa_top_p =
        (case g_generationConfig geminiReq of None \<Rightarrow> None | Some gc \<Rightarrow> gc_topP gc),
      oa_stream = False\<rparr>"

subsection \<open>The handler\<close>

text \<open>\<open>v || d\<close>\<close>

fun js_or :: "json option \<Rightarrow> json \<Rightarrow> json" where
  "js_or None d = d"
| "js_or (Some JNull) d = d"
| "js_or (Some (JBool b)) d = (if b then JBool b else d)"
| "js_or (Some (JNum n)) d = (if n = 0 then d else JNum n)"
| "js_or (Some (JStr s)) d = (if s = [] then d else JStr s)"
| "js_or (Some v) d = v"

text \<open>
  \<open>openaiResponse.choices?.[0]?.finish_reason?.toUpperCase() || 'STOP'\<close>. On a finish
  reason that is not a string, \<open>toUpperCase\<close> is not a function.
\<close>

definition finishReason_of :: "g_env \<Rightarrow> json \<Rightarrow> js_error + string" where
  "finishReason_of env openaiResponse =
     (case js_prop (js_index0 (js_prop (Some openaiResponse) ''choices'')) ''finish_reason'' of
        None \<Rightarrow> Inr ''STOP''
      | Some JNull \<Rightarrow> Inr ''STOP''
      | Some (JStr r) \<Rightarrow> Inr (let u = toUpperCase env r in if u = [] then ''STOP'' else u)
      | Some _ \<Rightarrow> Inl (Error ''openaiResponse.choices?.[0]?.finish_reason?.toUpperCase is not a function''))"

definition geminiResponse_of :: "json \<Rightarrow> string \<Rightarrow> json" where
  "geminiResponse_of openaiResponse finishReason =
     JObj [(''candidates'', JArr [JObj
              [(''content'', JObj
                  [(''parts'', JArr [JObj
                      [(''text'', js_or (js_prop (js_prop (js_index0
                          (js_prop (Some openaiResponse) ''choices'')) ''message'') ''content'')
                          (JStr []))]]),
                   (''role'', JStr ''model'')]),
               (''finishReason'', JStr finishReason),
               (''index'', JNum 0)]]),
           (''usageMetadata'', JObj
              [(''promptTokenCount'',
                js_or (js_prop (js_prop (Some openaiResponse) ''usage'') ''prompt_tokens'') (JNum 0)),
               (''candidatesTokenCount'',
                js_or (js_prop (js_prop (Some openaiResponse) ''usage'') ''completion_tokens'') (JNum 0)),
               (''totalTokenCount'',
                js_or (js_prop (js_prop (Some openaiResponse) ''usage'') ''total_tokens'') (JNum 0))])]"

text \<open>
  The statements inside the \<open>try\<close>: the Gemini response, or the error thrown. Reading
  \<open>openaiResponse.choices\<close> of \<open>null\<close> throws a TypeError.
\<close>

definition gemini_try :: "g_env \<Rightarrow> request \<Rightarrow> string \<Rightarrow> openai_request \<Rightarrow> js_error + json" where
  "gemini_try env req token openaiRequest =
     (case g_fetch env \<lparr>gf_url = getOrigin req @ ''/v1/chat/completions'',
                         gf_authorization = ''Bearer '' @ token,
                         gf_body = openaiRequest\<rparr> of
        Inl e \<Rightarrow> Inl e
      | Inr resp \<Rightarrow>
          if \<not> resp_ok resp then Inl (upstream_error ''failed'' resp)
          else
            (case h_read_fail resp of
               Some e \<Rightarrow> Inl e
             | None \<Rightarrow>
                 (case g_json_parse env
                         (case h_body resp of None \<Rightarrow> [] | Some chunks \<Rightarrow> concat chunks) of
                    None \<Rightarrow> Inl (g_syntax_error env)
                  | Some openaiResponse \<Rightarrow>
                      if openaiResponse = JNull
                      then Inl (Error ''Cannot read properties of null (reading 'choices')'')
                      else
                        (case finishReason_of env openaiResponse of
                           Inl e \<Rightarrow> Inl e
                         | Inr finishReason \<Rightarrow>
                             Inr (geminiResponse_of openaiResponse finishReason)))))"

definition gemini_error_body :: "js_error \<Rightarrow> json" where
  "gemini_error_body err =
     JObj [(''error'', JObj [(''message'', JStr (message err)),
                             (''type'', JStr ''server_error''),
                             (''code'', JStr ''gemini_conversion_error'')])]"

definition handleGeminiGenerateContent :: "g_env \<Rightarrow> request \<Rightarrow> string \<Rightarrow> effect list" where
  "handleGeminiGenerateContent env req modelName =
     (case getBearerToken env req of
        None \<Rightarrow>
          [SetStatus 401, SetHeader ''content-type'' ''application/json'',
           End (Some unauthorized_body)]
      | Some token \<Rightarrow>
          (case g_readJson env req of
             Inl e \<Rightarrow>
               [WriteError 400 ''Invalid JSON'' ''invalid_request_error'' ''parse_error'' None]
           | Inr geminiReq \<Rightarrow>
               (case gemini_try env req token (openaiRequest_of geminiReq modelName) of
                  Inr geminiResponse \<Rightarrow>
                    [SetStatus 200, SetHeader ''content-type'' ''application/json'',
                     End (Some geminiResponse)]
                | Inl err \<Rightarrow>
                    [SetStatus 500, SetHeader ''content-type'' ''application/json'',
                     End (Some (gemini_error_body err))])))"

section \<open>src/http/server.ts\<close>

text \<open>
  The configuration the middlewares read, and what a middleware does with a request: it
  answers, or it calls \<open>next()\<close>.
\<close>

record bridge_config =
  cfg_token :: string
  cfg_maxConcurrent :: int

datatype served = Responded "effect list" | PassedOn

text \<open>The authentication middleware, with the cache of \<open>isAuthorized\<close> passed along.\<close>

definition auth_middleware :: "bridge_config \<Rightarrow> request \<Rightarrow> auth_cache \<Rightarrow> served \<times> auth_cache" where
  "auth_middleware config req cache =
     (let path = (case req_url req of None \<Rightarrow> ''/'' | Some u \<Rightarrow> u) in
      if path = ''/health'' then (PassedOn, cache)
      else
        (let token = cfg_token config in
         if token = [] then (Responded [WriteTokenRequired], cache)
         else
           (case isAuthorized cache req token of
              (authorized, cache') \<Rightarrow>
                if \<not> authorized then (Responded [WriteUnauthorized], cache')
                else (PassedOn, cache'))))"

text \<open>
  The two regular expressions of the Gemini middleware: \<open>/:(?:stream)?[gG]enerateContent/\<close>
  anywhere in the target, and the model name captured by
  \<open>/\/v1\/models\/([^:]+):(?:stream)?[gG]enerateContent/\<close> at its leftmost match.
\<close>

definition generate_verb :: "string \<Rightarrow> bool" where
  "generate_verb s =
     (startsWith s '':generateContent'' \<or> startsWith s '':GenerateContent''
      \<or> startsWith s '':streamgenerateContent'' \<or> startsWith s '':streamGenerateContent'')"

fun matches_generate :: "string \<Rightarrow> bool" where
  "matches_generate [] = False"
| "matches_generate (c # s) = (generate_verb (c # s) \<or> matches_generate s)"

definition model_here :: "string \<Rightarrow> string option" where
  "model_here s =
     (if startsWith s ''/v1/models/''
      then (let name = takeWhile (\<lambda>c. c \<noteq> CHR '':'') (drop 11 s) in
            if name \<noteq> [] \<and> generate_verb (drop (11 + length name) s) then Some name else None)
      else None)"

fun model_match :: "string \<Rightarrow> string option" where
  "model_match [] = None"
| "model_match (c # s) =
     (case model_here (c # s) of Some name \<Rightarrow> Some name | None \<Rightarrow> model_match s)"

text \<open>
  The Gemini middleware. On a body of the declared type its \<open>catch\<close> clause is not
  reached: the handler catches what its upstream call throws.
\<close>

definition gemini_middleware ::
  "bridge_config \<Rightarrow> g_env \<Rightarrow> request \<Rightarrow> server_state \<Rightarrow> served" where
  "gemini_middleware config env req st =
     (let url = (case req_url req of None \<Rightarrow> [] | Some u \<Rightarrow> u) in
      if \<not> (req_method req = ''POST'' \<and> startsWith url ''/v1/models/'' \<and> matches_generate url)
      then PassedOn
      else if activeRequests st \<ge> cfg_maxConcurrent config then Responded [WriteRateLimit]
      else
        (let urlWithoutQuery = takeWhile (\<lambda>c. c \<noteq> CHR ''?'') url;
             modelName = (case model_match urlWithoutQuery of
                            Some name \<Rightarrow> name
                          | None \<Rightarrow> ''gpt-4o-copilot'')
         in Responded (handleGeminiGenerateContent env req modelName)))"

text \<open>The two middlewares in the order \<open>startServer\<close> installs them.\<close>

definition middlewares ::
  "bridge_config \<Rightarrow> g_env \<Rightarrow> request \<Rightarrow> auth_cache \<Rightarrow> server_state \<Rightarrow> served \<times> auth_cache" where
  "middlewares config env req cache st =
     (case auth_middleware config req cache of
        (Responded effects, cache') \<Rightarrow> (Responded effects, cache')
      | (PassedOn, cache') \<Rightarrow> (gemini_middleware config env req st, cache'))"

section \<open>Example inputs\<close>

text \<open>
  A request to \<open>/v1/messages\<close> with an \<open>x-api-key\<close> credential and no \<open>stream\<close>
  flag, and an environment for it over a given upstream. Its \<open>JSON.stringify\<close> and
  \<open>JSON.parse\<close> are tables on the few values the examples exchange, and the network
  cuts every body after nine code units.
\<close>

definition demo_stringify :: "json \<Rightarrow> string" where
  "demo_stringify j =
     (if j = chunk_json ''Hel'' then ''{1}''
      else if j = chunk_json ''lo'' then ''{2}''
      else if j = chunk_json [] then ''{0}''
      else ''{3}'')"

definition demo_parse :: "string \<Rightarrow> json option" where
  "demo_parse s =
     (if s = ''{1}'' then Some (chunk_json ''Hel'')
      else if s = ''{2}'' then Some (chunk_json ''lo'')
      else if s = ''{0}'' then Some (chunk_json [])
      else if s = ''{3}'' then Some (completion_json ''Hello'')
      else None)"

definition demo_split :: "string \<Rightarrow> string list" where
  "demo_split s = [take 9 s, drop 9 s]"

definition demo_body :: anthropic_request where
  "demo_body =
     \<lparr>a_model = ''m'', a_system = Some ''be terse'',
      a_messages = Some [\<lparr>a_role = ''user'', a_content = StringContent ''hi''\<rparr>],
      a_max_tokens = None, a_temperature = None, a_stream = None\<rparr>"

definition demo_request :: request where
  "demo_request =
     \<lparr>req_method = ''POST'', req_url = Some ''/v1/messages'',
      req_headers = [''x-api-key'' \<mapsto> ''s3cret'']\<rparr>"

definition demo_env :: "(fetch_call \<Rightarrow> js_error + http_response) \<Rightarrow> a_env" where
  "demo_env upstream =
     \<lparr>fetch = upstream, json_parse = demo_parse, read_body = (\<lambda>r. Inr demo_body),
      now_ms = 42, error_stack = (\<lambda>e. []), syntax_error = Error ''Unexpected token''\<rparr>"

text \<open>
  A body for \<open>/v1/responses\<close>, a model that answers in two fragments, and an
  environment of the responses adapter over a given outcome of the model lookup; the
  editor stores the text of a chat message as one text part.
\<close>

definition demo_ai_body :: json where
  "demo_ai_body =
     JObj [(''model'', JStr ''gpt-4o''),
           (''input'', JArr [JObj [(''role'', JStr ''user''), (''content'', JStr ''hello'')]])]"

definition demo_model :: model_handle where
  "demo_model =
     \<lparr>sendRequest = (\<lambda>messages.
        Inr \<lparr>resp_text = [''Hello! '', ''How can I help you?''], resp_fail = None,
             resp_has_dispose = False\<rparr>)\<rparr>"

definition demo_ai_env :: "model_handle option \<Rightarrow> bool \<Rightarrow> ai_env" where
  "demo_ai_env found has =
     \<lparr>readJson = (\<lambda>r. Inr demo_ai_body), getModel = (\<lambda>preferStream name. Inr found),
      hasLMApi = has, historyWindow = 3, chat_parts = (\<lambda>t. [TextPart t]), date_now = 5000,
      random_suffix1 = ''abc'', random_suffix2 = ''xyz''\<rparr>"

text \<open>
  A Gemini request whose only credential is the \<open>key\<close> query parameter, and an
  environment of the Gemini adapter whose \<open>URLSearchParams.get\<close> knows that query.
\<close>

definition demo_g_env :: g_env where
  "demo_g_env =
     \<lparr>g_fetch = (\<lambda>call. Inl (Error ''fetch failed'')),
      g_json_parse = (\<lambda>s. None),
      g_syntax_error = Error ''Unexpected token'',
      g_readJson = (\<lambda>r. Inr \<lparr>g_contents = None, g_generationConfig = None\<rparr>),
      searchParams_get = (\<lambda>query name.
         if query = ''key=s3cret'' \<and> name = ''key'' then Some ''s3cret''
         else if query = ''key=other'' \<and> name = ''key'' then Some ''other''
         else None),
      toUpperCase = (\<lambda>s. s)\<rparr>"

definition demo_gemini_request :: request where
  "demo_gemini_request =
     \<lparr>req_method = ''POST'',
      req_url = Some ''/v1/models/gemini-2.5-pro:generateContent?key=s3cret'',
      req_headers = Map.empty\<rparr>"

section \<open>Supporting lemmas\<close>

subsection \<open>Strings and the streaming loop\<close>

lemma js_join_Nil: "js_join [] xs = concat xs"
  by (induction "[]::string" xs rule: js_join.induct) simp_all

lemma takeWhile_line:
  "CHR 0x0A \<notin> set l \<Longrightarrow> takeWhile (\<lambda>c. c \<noteq> CHR 0x0A) (l @ CHR 0x0A # rest) = l"
  by (induction l) auto

lemma indexOf_newline_line:
  "CHR 0x0A \<notin> set l \<Longrightarrow> indexOf_newline (l @ CHR 0x0A # rest) = Some (length l)"
  by (simp add: indexOf_newline_def indexOf_def Let_def takeWhile_line)

lemma indexOf_newline_None: "CHR 0x0A \<notin> set b \<Longrightarrow> indexOf_newline b = None"
proof -
  assume "CHR 0x0A \<notin> set b"
  then have "length (takeWhile (\<lambda>c. c \<noteq> CHR 0x0A) b) = length b"
    by (induction b) auto
  then show ?thesis by (simp add: indexOf_newline_def indexOf_def Let_def)
qed

lemma drain_no_newline: "CHR 0x0A \<notin> set b \<Longrightarrow> drain env b = ([], Some b)"
  by (simp add: drain.simps indexOf_newline_None)

lemma drain_line:
  "CHR 0x0A \<notin> set l \<Longrightarrow>
   drain env (l @ CHR 0x0A # rest) =
     (if \<not> startsWith (js_trim l) ''data:'' then drain env rest
      else if js_trim (drop 5 (js_trim l)) = [] \<or> js_trim (drop 5 (js_trim l)) = ''[DONE]''
      then ([], None)
      else (case chunk_text env (js_trim (drop 5 (js_trim l))) of
              None \<Rightarrow> drain env rest
            | Some t \<Rightarrow> (case drain env rest of (ys, b) \<Rightarrow> (t # ys, b))))"
  by (subst drain.simps) (simp add: indexOf_newline_line Let_def)

lemma chunk_text_nonempty: "chunk_text env p = Some t \<Longrightarrow> t \<noteq> []"
  by (auto simp: chunk_text_def Let_def split: option.splits json.splits if_splits)

lemma drain_nonempty: "[] \<notin> set (fst (drain env b))"
proof (induction "length b" arbitrary: b rule: less_induct)
  case less
  show ?case
  proof (cases "CHR 0x0A \<in> set b")
    case False
    then show ?thesis by (simp add: drain_no_newline)
  next
    case True
    then obtain l rest where b: "b = l @ CHR 0x0A # rest" and l: "CHR 0x0A \<notin> set l"
      by (auto dest: split_list_first)
    have IH: "[] \<notin> set (fst (drain env rest))"
      using less.hyps[of rest] b by simp
    from IH show ?thesis
      unfolding b drain_line[OF l]
      by (auto split: if_splits option.splits prod.splits dest: chunk_text_nonempty)
  qed
qed

lemma drain_rest_no_newline: "drain env b = (ys, Some b') \<Longrightarrow> CHR 0x0A \<notin> set b'"
proof (induction "length b" arbitrary: b ys rule: less_induct)
  case less
  show ?case
  proof (cases "CHR 0x0A \<in> set b")
    case False
    with less.prems show ?thesis by (simp add: drain_no_newline)
  next
    case True
    then obtain l rest where b: "b = l @ CHR 0x0A # rest" and l: "CHR 0x0A \<notin> set l"
      by (auto dest: split_list_first)
    have IH: "\<And>ys. drain env rest = (ys, Some b') \<Longrightarrow> CHR 0x0A \<notin> set b'"
      using less.hyps[of rest] b by simp
    from less.prems show ?thesis
      unfolding b drain_line[OF l]
      by (auto split: if_splits option.splits prod.splits dest: IH)
  qed
qed

lemma drain_append:
  "drain env (b @ v) =
     (case drain env b of
        (ys, None) \<Rightarrow> (ys, None)
      | (ys, Some b') \<Rightarrow> (case drain env (b' @ v) of (zs, r) \<Rightarrow> (ys @ zs, r)))"
proof (induction "length b" arbitrary: b rule: less_induct)
  case less
  show ?case
  proof (cases "CHR 0x0A \<in> set b")
    case False
    then show ?thesis by (simp add: drain_no_newline split: prod.splits)
  next
    case True
    then obtain l rest where b: "b = l @ CHR 0x0A # rest" and l: "CHR 0x0A \<notin> set l"
      by (auto dest: split_list_first)
    have IH: "drain env (rest @ v) =
       (case drain env rest of
          (ys, None) \<Rightarrow> (ys, None)
        | (ys, Some b') \<Rightarrow> (case drain env (b' @ v) of (zs, r) \<Rightarrow> (ys @ zs, r)))"
      using less.hyps[of rest] b by simp
    have "drain env (b @ v) = drain env (l @ CHR 0x0A # (rest @ v))"
      by (simp add: b)
    then show ?thesis
      unfolding b drain_line[OF l]
      by (simp add: IH split: prod.splits option.splits)
  qed
qed

lemma read_loop_concat:
  "CHR 0x0A \<notin> set b \<Longrightarrow>
   read_loop env b cs fail =
     (case drain env (b @ concat cs) of
        (ys, None) \<Rightarrow> (ys, None)
      | (ys, Some b') \<Rightarrow> (ys, fail))"
proof (induction cs arbitrary: b)
  case Nil
  then show ?case by (simp add: drain_no_newline)
next
  case (Cons v vs)
  show ?case
  proof (cases "drain env (b @ v)")
    case (Pair ys r)
    show ?thesis
    proof (cases r)
      case None
      with Pair show ?thesis
        using drain_append[of env "b @ v" "concat vs"] by simp
    next
      case (Some b')
      with Pair have "CHR 0x0A \<notin> set b'" by (auto dest: drain_rest_no_newline)
      from Cons.IH[OF this] Pair Some show ?thesis
        using drain_append[of env "b @ v" "concat vs"]
        by (simp split: prod.splits option.splits)
    qed
  qed
qed


lemma js_trim_keep:
  "s \<noteq> [] \<Longrightarrow> \<not> js_space (hd s) \<Longrightarrow> \<not> js_space (last s) \<Longrightarrow> js_trim s = s"
proof -
  assume s: "s \<noteq> []" and h: "\<not> js_space (hd s)" and l: "\<not> js_space (last s)"
  from s h have 1: "dropWhile js_space s = s" by (cases s) auto
  from s l have 2: "dropWhile js_space (rev s) = rev s"
    by (cases "rev s") (auto simp: last_rev[symmetric] simp del: last_rev)
  show ?thesis by (simp add: js_trim_def 1 2)
qed

lemma js_trim_space: "js_space c \<Longrightarrow> js_trim (c # s) = js_trim s"
  by (simp add: js_trim_def)

lemma js_trim_Nil: "js_trim [] = []"
  by (simp add: js_trim_def)

lemma object_text_trim: "object_text p \<Longrightarrow> js_trim p = p"
  by (rule js_trim_keep) (auto simp: object_text_def js_space_def)

lemma drain_blank: "drain env (CHR 0x0A # rest) = drain env rest"
  using drain_line[of "[]" env rest] by (simp add: js_trim_Nil startsWith_def)

lemma drain_event:
  assumes p: "object_text p"
  shows "drain env (''data: '' @ p @ [CHR 0x0A, CHR 0x0A] @ rest) =
     (case chunk_text env p of
        None \<Rightarrow> drain env rest
      | Some t \<Rightarrow> (case drain env rest of (ys, b) \<Rightarrow> (t # ys, b)))"
proof -
  let ?l = "''data: '' @ p"
  from p have nl: "CHR 0x0A \<notin> set ?l" by (auto simp: object_text_def)
  from p have "js_trim ?l = ?l"
    by (intro js_trim_keep) (auto simp: object_text_def js_space_def)
  moreover have "js_trim (CHR '' '' # p) = p"
    using p by (simp add: js_trim_space js_space_def object_text_trim)
  moreover from p have "p \<noteq> []" "p \<noteq> ''[DONE]''" by (auto simp: object_text_def)
  moreover have "''data: '' @ p @ [CHR 0x0A, CHR 0x0A] @ rest = ?l @ CHR 0x0A # (CHR 0x0A # rest)"
    by simp
  ultimately show ?thesis
    unfolding \<open>''data: '' @ p @ [CHR 0x0A, CHR 0x0A] @ rest = ?l @ CHR 0x0A # (CHR 0x0A # rest)\<close>
      drain_line[OF nl]
    by (simp add: startsWith_def drain_blank split: option.splits)
qed

lemma drain_done: "drain env (''data: [DONE]'' @ [CHR 0x0A, CHR 0x0A] @ rest) = ([], None)"
proof -
  have nl: "CHR 0x0A \<notin> set ''data: [DONE]''" by simp
  have t: "js_trim ''data: [DONE]'' = ''data: [DONE]''"
    by (simp add: js_trim_def js_space_def)
  have t2: "js_trim '' [DONE]'' = ''[DONE]''"
    by (simp add: js_trim_def js_space_def)
  have "''data: [DONE]'' @ [CHR 0x0A, CHR 0x0A] @ rest = ''data: [DONE]'' @ CHR 0x0A # (CHR 0x0A # rest)"
    by simp
  then show ?thesis
    using drain_line[OF nl, of env "CHR 0x0A # rest"]
    by (simp add: t t2 startsWith_def)
qed

lemma chunk_text_chunk:
  "json_parse env p = Some (chunk_json f) \<Longrightarrow>
   chunk_text env p = (if f \<noteq> [] then Some f else None)"
  by (simp add: chunk_text_def chunk_json_def obj_get_def Let_def)

lemma drain_sse_stream:
  assumes "\<And>f. f \<in> set fs \<Longrightarrow>
     json_parse env (stringify (chunk_json f)) = Some (chunk_json f)
     \<and> object_text (stringify (chunk_json f))"
  shows "drain env (sse_stream stringify fs) = (filter (\<lambda>f. f \<noteq> []) fs, None)"
  using assms
proof (induction fs)
  case Nil
  show ?case using drain_done[of env "[]"] by (simp add: sse_stream_def)
next
  case (Cons f fs)
  have tail: "drain env (sse_stream stringify fs) = (filter (\<lambda>f. f \<noteq> []) fs, None)"
    using Cons by simp
  have ev: "object_text (stringify (chunk_json f))"
    and rt: "json_parse env (stringify (chunk_json f)) = Some (chunk_json f)"
    using Cons.prems[of f] by simp_all
  have "sse_stream stringify (f # fs)
        = ''data: '' @ stringify (chunk_json f) @ [CHR 0x0A, CHR 0x0A] @ sse_stream stringify fs"
    by (simp add: sse_stream_def)
  then show ?case
    using drain_event[OF ev, of env "sse_stream stringify fs"]
    by (simp add: chunk_text_chunk[OF rt] tail)
qed

lemma runLMStream_endpoint:
  assumes fetch: "fetch env = chat_endpoint stringify split fs"
    and split: "\<And>s. concat (split s) = s"
    and codec: "\<And>f. f \<in> set fs \<Longrightarrow>
       json_parse env (stringify (chunk_json f)) = Some (chunk_json f)
       \<and> object_text (stringify (chunk_json f))"
  shows "runLMStream env coreMessages opts = (filter (\<lambda>f. f \<noteq> []) fs, None)"
proof -
  have "read_loop env [] (split (sse_stream stringify fs)) None
        = (filter (\<lambda>f. f \<noteq> []) fs, None)"
    using read_loop_concat[of "[]" env "split (sse_stream stringify fs)" None]
      drain_sse_stream[of fs env stringify, OF codec]
    by (simp add: split)
  then show ?thesis
    by (simp add: runLMStream_def fetch chat_endpoint_def upstream_call_def resp_ok_def)
qed

lemma runLMFull_endpoint:
  assumes fetch: "fetch env = chat_endpoint stringify split fs"
    and split: "\<And>s. concat (split s) = s"
    and codec: "json_parse env (stringify (completion_json (concat fs)))
                = Some (completion_json (concat fs))"
  shows "runLMFull env coreMessages opts = Inr (concat fs)"
  using codec
  by (simp add: runLMFull_def fetch chat_endpoint_def upstream_call_def resp_ok_def
      resp_json_def split completion_json_def obj_get_def)


lemma read_loop_nonempty: "[] \<notin> set (fst (read_loop env b cs fail))"
proof (induction cs arbitrary: b)
  case Nil
  show ?case by simp
next
  case (Cons v vs)
  show ?case
  proof (cases "drain env (b @ v)")
    case (Pair ys r)
    have ys: "[] \<notin> set ys" using drain_nonempty[of env "b @ v"] Pair by simp
    show ?thesis
    proof (cases r)
      case None
      with Pair ys show ?thesis by simp
    next
      case (Some b')
      have "[] \<notin> set (fst (read_loop env b' vs fail))" by (rule Cons.IH)
      with Pair Some ys show ?thesis by (cases "read_loop env b' vs fail") simp
    qed
  qed
qed

lemma runLMStream_nonempty: "[] \<notin> set (fst (runLMStream env coreMessages opts))"
  using read_loop_nonempty
  by (auto simp: runLMStream_def split: sum.splits option.splits)

lemma streamed_text_deltas:
  "streamed_text (pre @ map content_block_delta fs @ post)
   = streamed_text pre @ concat fs @ streamed_text post"
  by (induction fs) (simp_all add: streamed_text_def content_block_delta_def obj_get_def)

subsection \<open>The responses adapter and the counter\<close>

lemma ceil_quarter_real: "ceil_quarter n = \<lceil>real n / 4\<rceil>"
proof -
  have "\<lceil>real n / 4\<rceil> = \<lceil>(of_rat (of_nat n / 4) :: real)\<rceil>"
    by (simp add: of_rat_divide)
  then show ?thesis by (simp add: ceil_quarter_def)
qed

lemma content_text_parts: "content_text (ContentArray (map PartItem parts)) = []"
  by (induction parts) (simp_all add: js_join_Nil)

lemma convert_message_text:
  "convert_message env m = Inr l \<Longrightarrow> content_text (msg_content l) = []"
  by (auto simp: convert_message_def LM_User_def LM_Assistant_def Let_def content_text_parts
      simp del: content_text.simps split: sum.splits if_splits)

lemma convert_reads_nothing:
  "convertAiSdkMessagesToLM env msgs = Inr lms \<Longrightarrow> l \<in> set lms \<Longrightarrow>
   content_text (msg_content l) = []"
proof (induction msgs arbitrary: lms)
  case Nil
  then show ?case by (simp add: convertAiSdkMessagesToLM_def)
next
  case (Cons m ms)
  from Cons.prems(1) obtain x xs where x: "convert_message env m = Inr x"
    and xs: "convertAiSdkMessagesToLM env ms = Inr xs" and lms: "lms = x # xs"
    by (auto simp: convertAiSdkMessagesToLM_def split: sum.splits)
  from Cons.prems(2) lms have "l = x \<or> l \<in> set xs" by simp
  then show ?case using convert_message_text[OF x] Cons.IH[OF xs] by blast
qed

lemma window_reads_nothing:
  assumes "convertAiSdkMessagesToLM env msgs = Inr lms"
  shows "concat (map (\<lambda>m. content_text (msg_content m)) (js_slice_from k lms)) = []"
proof -
  have "set (js_slice_from k lms) \<subseteq> set lms"
    by (simp add: js_slice_from_def Let_def set_drop_subset)
  then have "\<And>l. l \<in> set (js_slice_from k lms) \<Longrightarrow> content_text (msg_content l) = []"
    using convert_reads_nothing[OF assms] by blast
  then show ?thesis by simp
qed

text \<open>
  Every successful call of the responses adapter: the input text read back is empty, so
  the input estimate is 0, whatever the request.
\<close>

lemma usage_on_success:
  assumes body: "readJson env req = Inr body"
    and valid: "isAiSdkRequest body"
    and model: "getModel env False (body_model body) = Inr (Some model)"
    and conv: "convertAiSdkMessagesToLM env (body_input body) = Inr lmMessages"
    and send: "sendRequest model (js_slice_from (- historyWindow env * 2) lmMessages) = Inr response"
    and ok: "resp_fail response = None"
  shows "fst (handleAiSdkResponse env req s) =
           CounterInc # (if resp_has_dispose response then [DisposeResponse] else [])
           @ [WriteJson 200
                (aiSdkResponse env (body_model body) (concat (resp_text response)) 0
                   \<lceil>real (length (concat (resp_text response))) / 4\<rceil>),
              DisposeToken, CounterDec]"
  using send
  by (simp add: handleAiSdkResponse_def aiSdk_try_def body valid model conv ok
      collect_response_def Let_def js_join_Nil ceil_quarter_real
      window_reads_nothing[OF conv, of "- (historyWindow env * 2)"])

lemma filter_text_parts_no_null:
  "JNull \<notin> set parts \<Longrightarrow> filter_text_parts parts = Inr (filter is_text_part parts)"
  by (induction parts) auto

lemma aiSdk_try_counter:
  "count_list (fst (aiSdk_try env req)) CounterInc = 0 \<and>
   count_list (fst (aiSdk_try env req)) CounterDec = 0"
  by (auto simp: aiSdk_try_def collect_response_def Let_def
      split: sum.splits option.splits prod.splits if_splits)

lemma anthropic_try_counter:
  "count_list (fst (anthropic_try env req)) CounterInc = 0 \<and>
   count_list (fst (anthropic_try env req)) CounterDec = 0"
proof -
  have d: "count_list (map content_block_delta fs) CounterInc = 0
         \<and> count_list (map content_block_delta fs) CounterDec = 0" for fs
    by (induction fs) (simp_all add: content_block_delta_def)
  show ?thesis
    by (auto simp: anthropic_try_def Let_def d message_start_def content_block_start_def
        content_block_stop_def message_delta_def message_stop_def
        split: sum.splits option.splits prod.splits if_splits)
qed

lemma anthropicMessages_counter:
  "count_list (anthropicMessages env req) CounterInc = 0 \<and>
   count_list (anthropicMessages env req) CounterDec = 0"
  using anthropic_try_counter[of env req]
  by (cases "anthropic_try env req") (auto simp: anthropicMessages_def split: option.splits)

lemma gemini_counter:
  "count_list (handleGeminiGenerateContent env req modelName) CounterInc = 0 \<and>
   count_list (handleGeminiGenerateContent env req modelName) CounterDec = 0"
  by (auto simp: handleGeminiGenerateContent_def split: option.splits sum.splits)

subsection \<open>The example inputs\<close>

lemma demo_token: "getBearerOrXApiKey demo_request = Some ''s3cret''"
  by (simp add: getBearerOrXApiKey_def demo_request_def js_trim_def js_space_def)

lemma demo_split_concat: "concat (demo_split s) = s"
  by (simp add: demo_split_def)

lemma demo_codec:
  "f \<in> set [''Hel'', [], ''lo''] \<Longrightarrow>
     demo_parse (demo_stringify (chunk_json f)) = Some (chunk_json f)
     \<and> object_text (demo_stringify (chunk_json f))"
  by (auto simp: demo_parse_def demo_stringify_def chunk_json_def object_text_def)

lemma demo_codec_full:
  "demo_parse (demo_stringify (completion_json (concat [''Hel'', [], ''lo''])))
   = Some (completion_json (concat [''Hel'', [], ''lo'']))"
  by (simp add: demo_parse_def demo_stringify_def chunk_json_def completion_json_def)

lemma demo_stream_run:
  "runLMStream (demo_env (chat_endpoint demo_stringify demo_split [''Hel'', [], ''lo'']))
     coreMessages opts = ([''Hel'', ''lo''], None)"
  using runLMStream_endpoint[of "demo_env (chat_endpoint demo_stringify demo_split [''Hel'', [], ''lo''])"
      demo_stringify demo_split "[''Hel'', [], ''lo'']" coreMessages opts]
    demo_codec demo_split_concat
  by (simp add: demo_env_def)

lemma demo_ai_body_valid: "isAiSdkRequest demo_ai_body"
  by (simp add: isAiSdkRequest_def demo_ai_body_def valid_message_def obj_get_def)

lemma demo_ai_body_model: "body_model demo_ai_body = ''gpt-4o''"
  by (simp add: body_model_def demo_ai_body_def obj_get_def)

lemma demo_ai_body_input:
  "body_input demo_ai_body = [JObj [(''role'', JStr ''user''), (''content'', JStr ''hello'')]]"
  by (simp add: body_input_def demo_ai_body_def obj_get_def)

section \<open>Properties\<close>

text \<open>
  C1. Streaming and buffering agree in the Anthropic adapter. Let the chat endpoint behind
  the adapter deliver the fragments \<open>fs\<close>, however the network cuts its body into
  chunks, and let \<open>JSON.parse\<close> read back what \<open>JSON.stringify\<close> printed for each
  fragment's event and for the completion, every event being printed as a one-line
  object. Then for every request that carries a credential and every body, the
  concatenation, in order, of the texts of the \<open>content_block_delta\<close> frames of the
  streaming call equals the text of the single content block of the buffered call, and
  both are the concatenation of \<open>fs\<close>.
\<close>

theorem stream_buffer_equivalence:
  assumes token: "getBearerOrXApiKey req = Some token"
    and fetch: "fetch env = chat_endpoint stringify split fs"
    and split: "\<And>s. concat (split s) = s"
    and chunks: "\<And>f. f \<in> set fs \<Longrightarrow>
       json_parse env (stringify (chunk_json f)) = Some (chunk_json f)
       \<and> object_text (stringify (chunk_json f))"
    and full: "json_parse env (stringify (completion_json (concat fs)))
               = Some (completion_json (concat fs))"
  shows "buffered_text
           (anthropicMessages (env\<lparr>read_body := \<lambda>r. Inr (body\<lparr>a_stream := Some False\<rparr>)\<rparr>) req)
         = Some (streamed_text
           (anthropicMessages (env\<lparr>read_body := \<lambda>r. Inr (body\<lparr>a_stream := Some True\<rparr>)\<rparr>) req))
       \<and> streamed_text
           (anthropicMessages (env\<lparr>read_body := \<lambda>r. Inr (body\<lparr>a_stream := Some True\<rparr>)\<rparr>) req)
         = concat fs"
proof -
  let ?es = "env\<lparr>read_body := \<lambda>r. Inr (body\<lparr>a_stream := Some True\<rparr>)\<rparr>"
  let ?eb = "env\<lparr>read_body := \<lambda>r. Inr (body\<lparr>a_stream := Some False\<rparr>)\<rparr>"
  have s: "runLMStream ?es cm opts = (filter (\<lambda>f. f \<noteq> []) fs, None)" for cm opts
    by (rule runLMStream_endpoint[where stringify = stringify and split = split])
       (simp_all add: fetch split chunks)
  have b: "runLMFull ?eb cm opts = Inr (concat fs)" for cm opts
    by (rule runLMFull_endpoint[where stringify = stringify and split = split])
       (simp_all add: fetch split full)
  have cf: "concat (filter (\<lambda>f. f \<noteq> []) fs) = concat fs"
    by (induction fs) auto
  have st: "streamed_text (anthropicMessages ?es req) = concat fs"
    using streamed_text_deltas[of "[SetStatus 200,
            SetHeader ''content-type'' ''text/event-stream; charset=utf-8'',
            SetHeader ''cache-control'' ''no-cache, no-transform'',
            SetHeader ''connection'' ''keep-alive'',
            message_start (''msg_'' @ digits (now_ms env)) (a_model body),
            content_block_start]" "filter (\<lambda>f. f \<noteq> []) fs"
          "[content_block_stop, message_delta, message_stop, End None]"]
    by (simp add: anthropicMessages_def anthropic_try_def token s Let_def cf
        streamed_text_def message_start_def content_block_start_def content_block_stop_def
        message_delta_def message_stop_def)
  have bu: "buffered_text (anthropicMessages ?eb req) = Some (concat fs)"
    by (simp add: anthropicMessages_def anthropic_try_def token b Let_def buffered_text_def
        List.map_filter_def message_body_def fixBoltArtifactFormat_def obj_get_def)
  show ?thesis by (simp add: st bu)
qed

theorem stream_buffer_equivalence_witness:
  "buffered_text
     (anthropicMessages
        ((demo_env (chat_endpoint demo_stringify demo_split [''Hel'', [], ''lo'']))
           \<lparr>read_body := \<lambda>r. Inr (demo_body\<lparr>a_stream := Some False\<rparr>)\<rparr>) demo_request)
   = Some (streamed_text
     (anthropicMessages
        ((demo_env (chat_endpoint demo_stringify demo_split [''Hel'', [], ''lo'']))
           \<lparr>read_body := \<lambda>r. Inr (demo_body\<lparr>a_stream := Some True\<rparr>)\<rparr>) demo_request))
   \<and> streamed_text
     (anthropicMessages
        ((demo_env (chat_endpoint demo_stringify demo_split [''Hel'', [], ''lo'']))
           \<lparr>read_body := \<lambda>r. Inr (demo_body\<lparr>a_stream := Some True\<rparr>)\<rparr>) demo_request)
     = ''Hello''"
  using stream_buffer_equivalence[of demo_request "''s3cret''"
      "demo_env (chat_endpoint demo_stringify demo_split [''Hel'', [], ''lo''])"
      demo_stringify demo_split "[''Hel'', [], ''lo'']" demo_body,
      OF demo_token _ demo_split_concat]
    demo_codec demo_codec_full
  by (simp add: demo_env_def)

text \<open>
  C2, as amended. For every Anthropic Messages request that carries a credential and
  whose body is read, with streaming selected (the \<open>stream\<close> flag true or absent), if
  the upstream streaming call ends without an error, having delivered the fragments
  \<open>fragments\<close>, then the adapter sets status 200 and the event-stream headers and
  sends exactly, in this order: one \<open>message_start\<close>, one \<open>content_block_start\<close>
  with empty text, one \<open>content_block_delta\<close> per received fragment carrying exactly
  that fragment's text, one \<open>content_block_stop\<close>, one \<open>message_delta\<close> carrying
  the stop reason, one \<open>message_stop\<close>, and then ends the response. No received
  fragment is empty.
\<close>

theorem anthropic_stream_sequence:
  assumes token: "getBearerOrXApiKey req = Some token"
    and body: "read_body env req = Inr body"
    and stream: "a_stream body \<noteq> Some False"
    and upstream: "runLMStream env (coreMessages_of body) (opts_of body token req) = (fragments, None)"
  shows "anthropicMessages env req =
           [SetStatus 200,
            SetHeader ''content-type'' ''text/event-stream; charset=utf-8'',
            SetHeader ''cache-control'' ''no-cache, no-transform'',
            SetHeader ''connection'' ''keep-alive'']
           @ stream_protocol (''msg_'' @ digits (now_ms env)) (a_model body) fragments
         \<and> filter is_sent (anthropicMessages env req)
             = stream_protocol (''msg_'' @ digits (now_ms env)) (a_model body) fragments
         \<and> [] \<notin> set fragments"
proof -
  have ne: "[] \<notin> set fragments"
    using runLMStream_nonempty[of env "coreMessages_of body" "opts_of body token req"] upstream
    by simp
  then have keep: "filter (\<lambda>tokenChunk. tokenChunk \<noteq> []) fragments = fragments"
    by (induction fragments) auto
  from stream have sel: "(case a_stream body of None \<Rightarrow> True | Some b \<Rightarrow> b)"
    by (cases "a_stream body") auto
  have tr: "anthropicMessages env req =
           [SetStatus 200,
            SetHeader ''content-type'' ''text/event-stream; charset=utf-8'',
            SetHeader ''cache-control'' ''no-cache, no-transform'',
            SetHeader ''connection'' ''keep-alive'']
           @ stream_protocol (''msg_'' @ digits (now_ms env)) (a_model body) fragments"
    by (simp add: anthropicMessages_def anthropic_try_def token body sel upstream keep
        stream_protocol_def Let_def)
  have sent: "filter is_sent (stream_protocol i m fragments) = stream_protocol i m fragments" for i m
    by (induction fragments)
       (simp_all add: stream_protocol_def message_start_def content_block_start_def
          content_block_delta_def content_block_stop_def message_delta_def message_stop_def)
  show ?thesis using tr ne by (simp add: sent)
qed


theorem anthropic_stream_sequence_witness:
  "anthropicMessages (demo_env (chat_endpoint demo_stringify demo_split [''Hel'', [], ''lo'']))
     demo_request =
           [SetStatus 200,
            SetHeader ''content-type'' ''text/event-stream; charset=utf-8'',
            SetHeader ''cache-control'' ''no-cache, no-transform'',
            SetHeader ''connection'' ''keep-alive'']
           @ stream_protocol ''msg_42'' ''m'' [''Hel'', ''lo'']
   \<and> filter is_sent
        (anthropicMessages (demo_env (chat_endpoint demo_stringify demo_split [''Hel'', [], ''lo'']))
           demo_request)
      = stream_protocol ''msg_42'' ''m'' [''Hel'', ''lo'']"
proof -
  let ?env = "demo_env (chat_endpoint demo_stringify demo_split [''Hel'', [], ''lo''])"
  have body: "read_body ?env demo_request = Inr demo_body"
    by (simp add: demo_env_def)
  have stream: "a_stream demo_body \<noteq> Some False"
    by (simp add: demo_body_def)
  have up: "runLMStream ?env (coreMessages_of demo_body) (opts_of demo_body ''s3cret'' demo_request)
            = ([''Hel'', ''lo''], None)"
    by (rule demo_stream_run)
  have now: "''msg_'' @ digits (now_ms ?env) = ''msg_42''"
    by (simp add: demo_env_def digits.simps)
  have model: "a_model demo_body = ''m''"
    by (simp add: demo_body_def)
  from anthropic_stream_sequence[OF demo_token body stream up]
  show ?thesis
    unfolding now model by (elim conjE) (intro conjI; assumption)
qed

text \<open>
  The claim as stated, for every request with streaming selected, fails when the
  upstream call fails: the two opening events are already sent, the \<open>catch\<close> clause
  sets the status 500, its \<open>res.setHeader\<close> throws because the headers are sent, and
  the handler ends there, its promise rejected: no closing event is sent and the response
  is not ended.
\<close>

theorem anthropic_stream_upstream_failure:
  "getBearerOrXApiKey demo_request = Some ''s3cret''
   \<and> a_stream demo_body = None
   \<and> anthropicMessages
         (demo_env (\<lambda>call. Inr \<lparr>h_status = 500, h_body = Some [''boom''], h_read_fail = None\<rparr>))
         demo_request
       = [SetStatus 200,
          SetHeader ''content-type'' ''text/event-stream; charset=utf-8'',
          SetHeader ''cache-control'' ''no-cache, no-transform'',
          SetHeader ''connection'' ''keep-alive'',
          message_start ''msg_42'' ''m'', content_block_start,
          SetStatus 500, Throws headers_sent_error]
   \<and> \<not> (\<exists>msg_id model fragments.
         filter is_sent
           (anthropicMessages
              (demo_env (\<lambda>call. Inr \<lparr>h_status = 500, h_body = Some [''boom''], h_read_fail = None\<rparr>))
              demo_request)
         = stream_protocol msg_id model fragments)"
proof -
  let ?env = "demo_env (\<lambda>call. Inr \<lparr>h_status = 500, h_body = Some [''boom''], h_read_fail = None\<rparr>)"
  have trace: "anthropicMessages ?env demo_request
       = [SetStatus 200,
          SetHeader ''content-type'' ''text/event-stream; charset=utf-8'',
          SetHeader ''cache-control'' ''no-cache, no-transform'',
          SetHeader ''connection'' ''keep-alive'',
          message_start ''msg_42'' ''m'', content_block_start,
          SetStatus 500, Throws headers_sent_error]"
    by (simp add: anthropicMessages_def anthropic_try_def demo_token demo_env_def demo_body_def
        runLMStream_def resp_ok_def Let_def headersSent_def message_start_def
        content_block_start_def digits.simps)
  have two: "length (filter is_sent (anthropicMessages ?env demo_request)) = 2"
    unfolding trace by (simp add: message_start_def content_block_start_def)
  have "filter is_sent (anthropicMessages ?env demo_request)
      \<noteq> stream_protocol msg_id model fragments" for msg_id model fragments
  proof
    assume "filter is_sent (anthropicMessages ?env demo_request)
      = stream_protocol msg_id model fragments"
    then have "length (stream_protocol msg_id model fragments) = 2"
      using two by simp
    then show False by (simp add: stream_protocol_def)
  qed
  then show ?thesis using trace by (simp add: demo_token demo_body_def)
qed

text \<open>
  C3, as amended. For every request the responses adapter handles, the active-request
  counter is incremented exactly once, first of all, and decremented exactly once, last
  of all, on every exit path (success, validation failure, or thrown exception), so
  that after the response the counter has its value of before the request. The Anthropic
  and the Gemini adapter never change the counter themselves.
\<close>

theorem active_request_counter:
  "(case handleAiSdkResponse env req s of (effects, s') \<Rightarrow>
      count_list effects CounterInc = 1 \<and> count_list effects CounterDec = 1
      \<and> hd effects = CounterInc \<and> last effects = CounterDec
      \<and> activeRequests s' = activeRequests s)
   \<and> count_list (anthropicMessages aenv areq) CounterInc = 0
   \<and> count_list (anthropicMessages aenv areq) CounterDec = 0
   \<and> count_list (handleGeminiGenerateContent genv greq modelName) CounterInc = 0
   \<and> count_list (handleGeminiGenerateContent genv greq modelName) CounterDec = 0"
  using aiSdk_try_counter[of env req] anthropicMessages_counter[of aenv areq]
    gemini_counter[of genv greq modelName]
  by (cases "aiSdk_try env req") (auto simp: handleAiSdkResponse_def Let_def split: option.splits)

text \<open>
  The claim as stated, for every adapter, fails on the Anthropic adapter: a request it
  accepts and answers with status 200 is not counted.
\<close>

theorem active_request_counter_counterexample:
  "hd (anthropicMessages (demo_env (chat_endpoint demo_stringify demo_split [''Hel'', [], ''lo'']))
         demo_request) = SetStatus 200
   \<and> count_list
         (anthropicMessages (demo_env (chat_endpoint demo_stringify demo_split [''Hel'', [], ''lo'']))
            demo_request) CounterInc \<noteq> 1"
proof -
  let ?env = "demo_env (chat_endpoint demo_stringify demo_split [''Hel'', [], ''lo''])"
  have body: "read_body ?env demo_request = Inr demo_body"
    by (simp add: demo_env_def)
  have "hd (anthropicMessages ?env demo_request) = SetStatus 200"
    by (simp add: anthropicMessages_def anthropic_try_def demo_token body demo_stream_run
        Let_def demo_body_def)
  then show ?thesis
    using anthropicMessages_counter[of ?env demo_request] by simp
qed

text \<open>
  C4. When a valid responses request names a model that cannot be resolved, the adapter
  answers by the provider's capability: if the language-model capability exists and the
  caller named a model, 404 with code \<open>model_not_found\<close>; if the capability exists and
  the model name is empty, 503 with code \<open>copilot_unavailable\<close> and reason
  \<open>copilot_model_unavailable\<close>; if the capability itself is missing, 503 with code
  \<open>copilot_unavailable\<close> and reason \<open>missing_language_model_api\<close>.
\<close>

theorem model_resolution_failure:
  assumes "readJson env req = Inr body"
    and "isAiSdkRequest body"
    and "getModel env False (body_model body) = Inr None"
  shows "fst (handleAiSdkResponse env req s) =
     [CounterInc,
      (if hasLMApi env
       then (if body_model body \<noteq> []
             then WriteError 404 ''model not found'' ''invalid_request_error''
                    ''model_not_found'' (Some ''not_found'')
             else WriteError 503 ''Copilot unavailable'' ''server_error''
                    ''copilot_unavailable'' (Some ''copilot_model_unavailable''))
       else WriteError 503 ''Copilot unavailable'' ''server_error''
              ''copilot_unavailable'' (Some ''missing_language_model_api'')),
      CounterDec]"
  using assms by (simp add: handleAiSdkResponse_def aiSdk_try_def Let_def)

theorem model_resolution_failure_witness:
  "fst (handleAiSdkResponse (demo_ai_env None True) demo_request \<lparr>activeRequests = 0\<rparr>) =
     [CounterInc,
      WriteError 404 ''model not found'' ''invalid_request_error'' ''model_not_found''
        (Some ''not_found''),
      CounterDec]
   \<and> fst (handleAiSdkResponse (demo_ai_env None False) demo_request \<lparr>activeRequests = 0\<rparr>) =
     [CounterInc,
      WriteError 503 ''Copilot unavailable'' ''server_error'' ''copilot_unavailable''
        (Some ''missing_language_model_api''),
      CounterDec]"
  using model_resolution_failure[of "demo_ai_env None True" demo_request demo_ai_body
      "\<lparr>activeRequests = 0\<rparr>"]
    model_resolution_failure[of "demo_ai_env None False" demo_request demo_ai_body
      "\<lparr>activeRequests = 0\<rparr>"]
    demo_ai_body_valid
  by (simp add: demo_ai_env_def demo_ai_body_model)

text \<open>
  C5, as amended. The Gemini adapter remaps the role \<open>model\<close> to \<open>assistant\<close> and a
  missing or empty role to \<open>user\<close>, and passes every other role on unchanged. The
  responses adapter normalizes \<open>assistant\<close> to the assistant role and every other
  role, recognized or not, to the user role. The Anthropic adapter keeps the messages of
  role \<open>user\<close> and \<open>assistant\<close>, in order, and drops the messages of any other role.
\<close>

theorem role_mapping:
  "map cm_role (gemini_messages geminiReq)
     = map (\<lambda>c. case g_role c of
                   None \<Rightarrow> ''user''
                 | Some r \<Rightarrow> if r = ''model'' then ''assistant'' else if r = [] then ''user'' else r)
         (case g_contents geminiReq of None \<Rightarrow> [] | Some cs \<Rightarrow> cs)
   \<and> (convertAiSdkMessagesToLM env msgs = Inr lms \<longrightarrow>
        map msg_role lms
          = map (\<lambda>m. if js_prop (Some m) ''role'' = Some (JStr ''assistant'')
                      then Assistant else User) msgs)
   \<and> map cm_role (coreMessages_of body)
       = filter (\<lambda>r. r = ''user'' \<or> r = ''assistant'')
           (map a_role (case a_messages body of None \<Rightarrow> [] | Some ms \<Rightarrow> ms))"
proof (intro conjI impI)
  show "map cm_role (gemini_messages geminiReq)
     = map (\<lambda>c. case g_role c of
                   None \<Rightarrow> ''user''
                 | Some r \<Rightarrow> if r = ''model'' then ''assistant'' else if r = [] then ''user'' else r)
         (case g_contents geminiReq of None \<Rightarrow> [] | Some cs \<Rightarrow> cs)"
    by (auto simp: gemini_messages_def gemini_role_def split: option.splits)
next
  assume "convertAiSdkMessagesToLM env msgs = Inr lms"
  then show "map msg_role lms
          = map (\<lambda>m. if js_prop (Some m) ''role'' = Some (JStr ''assistant'')
                      then Assistant else User) msgs"
  proof (induction msgs arbitrary: lms)
    case Nil
    then show ?case by (simp add: convertAiSdkMessagesToLM_def)
  next
    case (Cons m ms)
    from Cons.prems obtain l ls where l: "convert_message env m = Inr l"
      and ls: "convertAiSdkMessagesToLM env ms = Inr ls" and lms: "lms = l # ls"
      by (auto simp: convertAiSdkMessagesToLM_def split: sum.splits)
    from l have "msg_role l = (if js_prop (Some m) ''role'' = Some (JStr ''assistant'')
                      then Assistant else User)"
      by (auto simp: convert_message_def LM_User_def LM_Assistant_def Let_def
          split: sum.splits if_splits)
    with Cons.IH[OF ls] show ?case by (simp add: lms)
  qed
next
  show "map cm_role (coreMessages_of body)
       = filter (\<lambda>r. r = ''user'' \<or> r = ''assistant'')
           (map a_role (case a_messages body of None \<Rightarrow> [] | Some ms \<Rightarrow> ms))"
    by (simp add: coreMessages_of_def filter_map comp_def)
qed

theorem role_mapping_witness:
  "(\<exists>lms. convertAiSdkMessagesToLM (demo_ai_env None True)
            [JObj [(''role'', JStr ''assistant''), (''content'', JStr ''a'')],
             JObj [(''role'', JStr ''tool''), (''content'', JStr ''b'')],
             JObj [(''role'', JStr ''system''), (''content'', JStr ''c'')]] = Inr lms
          \<and> map msg_role lms = [Assistant, User, User])
   \<and> map cm_role (gemini_messages
         \<lparr>g_contents = Some [\<lparr>g_role = Some ''model'', g_parts = None\<rparr>,
                             \<lparr>g_role = Some ''tool'', g_parts = None\<rparr>,
                             \<lparr>g_role = None, g_parts = None\<rparr>],
          g_generationConfig = None\<rparr>) = [''assistant'', ''tool'', ''user'']"
proof -
  let ?msgs = "[JObj [(''role'', JStr ''assistant''), (''content'', JStr ''a'')],
             JObj [(''role'', JStr ''tool''), (''content'', JStr ''b'')],
             JObj [(''role'', JStr ''system''), (''content'', JStr ''c'')]]"
  let ?g = "\<lparr>g_contents = Some [\<lparr>g_role = Some ''model'', g_parts = None\<rparr>,
                             \<lparr>g_role = Some ''tool'', g_parts = None\<rparr>,
                             \<lparr>g_role = None, g_parts = None\<rparr>],
          g_generationConfig = None\<rparr>"
  obtain lms where lms: "convertAiSdkMessagesToLM (demo_ai_env None True) ?msgs = Inr lms"
    by (simp add: convertAiSdkMessagesToLM_def convert_message_def message_content_def obj_get_def)
  from role_mapping[of ?g "demo_ai_env None True" ?msgs lms] lms
  have a: "map msg_role lms = [Assistant, User, User]"
    and b: "map cm_role (gemini_messages ?g) = [''assistant'', ''tool'', ''user'']"
    by (simp_all add: obj_get_def)
  show ?thesis
  proof (intro conjI exI)
    show "convertAiSdkMessagesToLM (demo_ai_env None True) ?msgs = Inr lms" by (rule lms)
    show "map msg_role lms = [Assistant, User, User]" by (rule a)
    show "map cm_role (gemini_messages ?g) = [''assistant'', ''tool'', ''user'']" by (rule b)
  qed
qed

text \<open>
  The claim as stated, an unrecognized role becoming \<open>user\<close> in every adapter, fails
  on the role \<open>tool\<close>: the Gemini adapter passes it on as it is, and the Anthropic
  adapter drops the message.
\<close>

theorem role_mapping_counterexample:
  "gemini_role (Some ''tool'') = ''tool''
   \<and> gemini_role (Some ''tool'') \<noteq> ''user''
   \<and> coreMessages_of
        \<lparr>a_model = ''m'', a_system = None,
         a_messages = Some [\<lparr>a_role = ''tool'', a_content = StringContent ''hi''\<rparr>],
         a_max_tokens = None, a_temperature = None, a_stream = None\<rparr> = []"
  by (simp add: gemini_role_def coreMessages_of_def)

text \<open>
  C6. A Gemini request whose bearer token arrives only as the \<open>key\<close> query parameter
  should be accepted. The handler would accept it (\<open>getBearerToken\<close> finds the key,
  and the Gemini middleware would hand the request to the handler), but the
  authentication middleware, which runs first and reads headers only, answers it with
  \<open>writeUnauthorized\<close>. A request with the token in the \<open>Authorization\<close> header and
  another value in the \<open>key\<close> parameter reaches the handler, which takes the token of
  the header.
\<close>

theorem gemini_query_key_rejected:
  "fst (middlewares \<lparr>cfg_token = ''s3cret'', cfg_maxConcurrent = 4\<rparr> demo_g_env
          demo_gemini_request \<lparr>cachedToken = [], cachedAuthHeader = []\<rparr>
          \<lparr>activeRequests = 0\<rparr>)
     = Responded [WriteUnauthorized]
   \<and> getBearerToken demo_g_env demo_gemini_request = Some ''s3cret''
   \<and> gemini_middleware \<lparr>cfg_token = ''s3cret'', cfg_maxConcurrent = 4\<rparr> demo_g_env
          demo_gemini_request \<lparr>activeRequests = 0\<rparr>
     = Responded (handleGeminiGenerateContent demo_g_env demo_gemini_request ''gemini-2.5-pro'')
   \<and> fst (middlewares \<lparr>cfg_token = ''s3cret'', cfg_maxConcurrent = 4\<rparr> demo_g_env
          \<lparr>req_method = ''POST'',
           req_url = Some ''/v1/models/gemini-2.5-pro:generateContent?key=other'',
           req_headers = [''authorization'' \<mapsto> ''Bearer s3cret'']\<rparr>
          \<lparr>cachedToken = [], cachedAuthHeader = []\<rparr> \<lparr>activeRequests = 0\<rparr>)
     = Responded (handleGeminiGenerateContent demo_g_env
          \<lparr>req_method = ''POST'',
           req_url = Some ''/v1/models/gemini-2.5-pro:generateContent?key=other'',
           req_headers = [''authorization'' \<mapsto> ''Bearer s3cret'']\<rparr> ''gemini-2.5-pro'')
   \<and> getBearerToken demo_g_env
          \<lparr>req_method = ''POST'',
           req_url = Some ''/v1/models/gemini-2.5-pro:generateContent?key=other'',
           req_headers = [''authorization'' \<mapsto> ''Bearer s3cret'']\<rparr> = Some ''s3cret''"
proof (intro conjI)
  show "fst (middlewares \<lparr>cfg_token = ''s3cret'', cfg_maxConcurrent = 4\<rparr> demo_g_env
          demo_gemini_request \<lparr>cachedToken = [], cachedAuthHeader = []\<rparr>
          \<lparr>activeRequests = 0\<rparr>)
     = Responded [WriteUnauthorized]"
    by (simp add: middlewares_def auth_middleware_def isAuthorized_def demo_gemini_request_def
        Let_def)
next
  show "getBearerToken demo_g_env demo_gemini_request = Some ''s3cret''"
    by (simp add: getBearerToken_def demo_gemini_request_def demo_g_env_def indexOf_def Let_def)
next
  show "gemini_middleware \<lparr>cfg_token = ''s3cret'', cfg_maxConcurrent = 4\<rparr> demo_g_env
          demo_gemini_request \<lparr>activeRequests = 0\<rparr>
     = Responded (handleGeminiGenerateContent demo_g_env demo_gemini_request ''gemini-2.5-pro'')"
    by (simp add: gemini_middleware_def demo_gemini_request_def startsWith_def generate_verb_def
        model_here_def Let_def)
next
  show "fst (middlewares \<lparr>cfg_token = ''s3cret'', cfg_maxConcurrent = 4\<rparr> demo_g_env
          \<lparr>req_method = ''POST'',
           req_url = Some ''/v1/models/gemini-2.5-pro:generateContent?key=other'',
           req_headers = [''authorization'' \<mapsto> ''Bearer s3cret'']\<rparr>
          \<lparr>cachedToken = [], cachedAuthHeader = []\<rparr> \<lparr>activeRequests = 0\<rparr>)
     = Responded (handleGeminiGenerateContent demo_g_env
          \<lparr>req_method = ''POST'',
           req_url = Some ''/v1/models/gemini-2.5-pro:generateContent?key=other'',
           req_headers = [''authorization'' \<mapsto> ''Bearer s3cret'']\<rparr> ''gemini-2.5-pro'')"
    by (simp add: middlewares_def auth_middleware_def isAuthorized_def gemini_middleware_def
        startsWith_def js_trim_def js_space_def generate_verb_def model_here_def Let_def)
next
  show "getBearerToken demo_g_env
          \<lparr>req_method = ''POST'',
           req_url = Some ''/v1/models/gemini-2.5-pro:generateContent?key=other'',
           req_headers = [''authorization'' \<mapsto> ''Bearer s3cret'']\<rparr> = Some ''s3cret''"
    by (simp add: getBearerToken_def startsWith_def js_trim_def js_space_def Let_def)
qed

text \<open>
  C7, as amended. For every message of the responses adapter whose content is a list of
  parts, none of them \<open>null\<close>, the adapter concatenates, in list order, the text of
  the parts tagged \<open>input_text\<close> or \<open>output_text\<close> and drops the others; on parts
  that are objects of a tag and a text string this is the concatenation of the texts of
  the tagged ones. A single string payload is accepted as it is by the responses and the
  Anthropic adapter. The Gemini adapter joins the non-empty texts of the parts, in list
  order, with a line feed between them.
\<close>

theorem text_parts_concatenation:
  assumes "JNull \<notin> set parts"
  shows "extractTextContent (JArr parts)
           = Inr (concat (map (\<lambda>part. joined_text (js_prop (Some part) ''text''))
                            (filter is_text_part parts)))
       \<and> extractTextContent
            (JArr (map (\<lambda>(tag, t). JObj [(''type'', JStr tag), (''text'', JStr t)]) typed))
           = Inr (concat (map snd
                   (filter (\<lambda>(tag, t). tag = ''input_text'' \<or> tag = ''output_text'') typed)))
       \<and> extractTextContent (JStr s) = Inr s
       \<and> toText (StringContent s) = s
       \<and> gemini_text (Some ps)
           = js_join [CHR 0x0A]
               (filter (\<lambda>t. t \<noteq> []) (map (\<lambda>p. case g_text p of None \<Rightarrow> [] | Some t \<Rightarrow> t) ps))"
proof (intro conjI)
  show "extractTextContent (JArr parts)
           = Inr (concat (map (\<lambda>part. joined_text (js_prop (Some part) ''text''))
                            (filter is_text_part parts)))"
    using assms by (simp add: filter_text_parts_no_null js_join_Nil)
next
  let ?enc = "\<lambda>(tag, t). JObj [(''type'', JStr tag), (''text'', JStr t)]"
  have nn: "JNull \<notin> set (map ?enc typed)" by auto
  have "map (\<lambda>part. joined_text (js_prop (Some part) ''text'')) (filter is_text_part (map ?enc typed))
        = map snd (filter (\<lambda>(tag, t). tag = ''input_text'' \<or> tag = ''output_text'') typed)"
    by (induction typed) (auto simp: is_text_part_def obj_get_def)
  then show "extractTextContent (JArr (map ?enc typed))
           = Inr (concat (map snd
                   (filter (\<lambda>(tag, t). tag = ''input_text'' \<or> tag = ''output_text'') typed)))"
    by (simp add: filter_text_parts_no_null[OF nn] js_join_Nil)
next
  show "extractTextContent (JStr s) = Inr s" by simp
next
  show "toText (StringContent s) = s" by simp
next
  have "map (\<lambda>p. case g_text p of None \<Rightarrow> [] | Some t \<Rightarrow> t)
          (filter (\<lambda>p. case g_text p of None \<Rightarrow> False | Some t \<Rightarrow> t \<noteq> []) ps)
        = filter (\<lambda>t. t \<noteq> []) (map (\<lambda>p. case g_text p of None \<Rightarrow> [] | Some t \<Rightarrow> t) ps)"
    by (induction ps) (auto split: option.splits)
  then show "gemini_text (Some ps)
           = js_join [CHR 0x0A]
               (filter (\<lambda>t. t \<noteq> []) (map (\<lambda>p. case g_text p of None \<Rightarrow> [] | Some t \<Rightarrow> t) ps))"
    by (simp add: gemini_text_def)
qed

theorem text_parts_concatenation_witness:
  "extractTextContent
     (JArr [JObj [(''type'', JStr ''input_text''), (''text'', JStr ''ab'')],
            JObj [(''type'', JStr ''image''), (''url'', JStr ''u'')],
            JNum 7,
            JObj [(''type'', JStr ''output_text''), (''text'', JStr ''cd'')]]) = Inr ''abcd''"
  using text_parts_concatenation
    [of "[JObj [(''type'', JStr ''input_text''), (''text'', JStr ''ab'')],
            JObj [(''type'', JStr ''image''), (''url'', JStr ''u'')],
            JNum 7,
            JObj [(''type'', JStr ''output_text''), (''text'', JStr ''cd'')]]"]
  by (simp add: is_text_part_def obj_get_def)

text \<open>
  The claim as stated, plain concatenation in every adapter, fails on two text parts
  \<open>a\<close> and \<open>b\<close>: the Gemini adapter puts a line feed between them, and the
  Anthropic adapter reads the first part only.
\<close>

theorem text_parts_counterexample:
  "gemini_text (Some [\<lparr>g_text = Some ''a''\<rparr>, \<lparr>g_text = Some ''b''\<rparr>]) = [CHR ''a'', CHR 0x0A, CHR ''b'']
   \<and> gemini_text (Some [\<lparr>g_text = Some ''a''\<rparr>, \<lparr>g_text = Some ''b''\<rparr>]) \<noteq> ''ab''
   \<and> toText (PartsContent [\<lparr>part_type = ''text'', part_text = ''a''\<rparr>,
                             \<lparr>part_type = ''text'', part_text = ''b''\<rparr>]) = ''a''
   \<and> toText (PartsContent [\<lparr>part_type = ''text'', part_text = ''a''\<rparr>,
                             \<lparr>part_type = ''text'', part_text = ''b''\<rparr>]) \<noteq> ''ab''"
  by (simp add: gemini_text_def)

text \<open>
  C8. The output sanitizer is idempotent, and it returns every string unchanged; in
  particular it is the identity on the strings that hold no malformed boltArtifact or
  boltAction tag.
\<close>

theorem fixBoltArtifactFormat_idempotent_identity:
  "fixBoltArtifactFormat (fixBoltArtifactFormat x) = fixBoltArtifactFormat x
   \<and> fixBoltArtifactFormat x = x"
  by (simp add: fixBoltArtifactFormat_def)

text \<open>
  C9. On a successful responses call \<open>usage.input_tokens\<close> should be the ceiling of a
  quarter of the length of the concatenated input text. For the request whose input is
  the one user message \<open>hello\<close>, answered by the model with 26 characters, the estimate
  should be 2; the adapter reports 0 input tokens, 7 output tokens and a total of 7. The
  editor holds the text of a chat message in part objects, and the handler reads back
  only items that are strings.
\<close>

theorem usage_input_tokens_zero:
  "map_throwing (\<lambda>m. extractTextContent (message_content m)) (body_input demo_ai_body)
     = Inr [''hello'']
   \<and> \<lceil>real (length ''hello'') / 4\<rceil> = 2
   \<and> fst (handleAiSdkResponse (demo_ai_env (Some demo_model) True) demo_request
          \<lparr>activeRequests = 0\<rparr>)
       = [CounterInc,
          WriteJson 200 (aiSdkResponse (demo_ai_env (Some demo_model) True) ''gpt-4o''
             ''Hello! How can I help you?'' 0 7),
          DisposeToken, CounterDec]
   \<and> usage_field (aiSdkResponse (demo_ai_env (Some demo_model) True) ''gpt-4o''
         ''Hello! How can I help you?'' 0 7) ''input_tokens'' = Some (JNum 0)
   \<and> usage_field (aiSdkResponse (demo_ai_env (Some demo_model) True) ''gpt-4o''
         ''Hello! How can I help you?'' 0 7) ''output_tokens'' = Some (JNum 7)
   \<and> usage_field (aiSdkResponse (demo_ai_env (Some demo_model) True) ''gpt-4o''
         ''Hello! How can I help you?'' 0 7) ''total_tokens'' = Some (JNum 7)"
proof (intro conjI)
  show "map_throwing (\<lambda>m. extractTextContent (message_content m)) (body_input demo_ai_body)
     = Inr [''hello'']"
    by (simp add: demo_ai_body_input message_content_def obj_get_def)
next
  show "\<lceil>real (length ''hello'') / 4\<rceil> = 2" by simp
next
  let ?env = "demo_ai_env (Some demo_model) True"
  have body: "readJson ?env demo_request = Inr demo_ai_body"
    by (simp add: demo_ai_env_def)
  have model: "getModel ?env False (body_model demo_ai_body) = Inr (Some demo_model)"
    by (simp add: demo_ai_env_def)
  have conv: "convertAiSdkMessagesToLM ?env (body_input demo_ai_body)
              = Inr [LM_User ?env ''hello'']"
    by (simp add: demo_ai_body_input convertAiSdkMessagesToLM_def convert_message_def
        message_content_def obj_get_def)
  have send: "sendRequest demo_model
                (js_slice_from (- historyWindow ?env * 2) [LM_User ?env ''hello''])
              = Inr \<lparr>resp_text = [''Hello! '', ''How can I help you?''], resp_fail = None,
                     resp_has_dispose = False\<rparr>"
    by (simp add: demo_model_def)
  from usage_on_success[OF body demo_ai_body_valid model conv send, of "\<lparr>activeRequests = 0\<rparr>"]
  show "fst (handleAiSdkResponse ?env demo_request \<lparr>activeRequests = 0\<rparr>)
       = [CounterInc,
          WriteJson 200 (aiSdkResponse ?env ''gpt-4o'' ''Hello! How can I help you?'' 0 7),
          DisposeToken, CounterDec]"
    by (simp add: demo_ai_body_model)
qed (simp_all add: usage_field_def aiSdkResponse_def obj_get_def Let_def)

text \<open>
  C10. The boolean returned by \<open>isAuthorized\<close> does not depend on the cached token and
  header, and of the request it reads only the \<open>authorization\<close>, \<open>x-api-key\<close> and
  \<open>x-goog-api-key\<close> headers: two calls with the same token, on requests that agree on
  these three headers, return the same boolean from any two cache states.
\<close>

theorem isAuthorized_cache_independent:
  assumes "req_headers r1 ''authorization'' = req_headers r2 ''authorization''"
    and "req_headers r1 ''x-api-key'' = req_headers r2 ''x-api-key''"
    and "req_headers r1 ''x-goog-api-key'' = req_headers r2 ''x-goog-api-key''"
  shows "fst (isAuthorized c1 r1 token) = fst (isAuthorized c2 r2 token)"
  using assms by (simp add: isAuthorized_def Let_def)

theorem isAuthorized_cache_independent_witness:
  "fst (isAuthorized \<lparr>cachedToken = ''old'', cachedAuthHeader = ''Bearer old''\<rparr>
         \<lparr>req_method = ''POST'', req_url = Some ''/v1/messages'',
          req_headers = [''authorization'' \<mapsto> ''Bearer s3cret'']\<rparr> ''s3cret'')
   = fst (isAuthorized \<lparr>cachedToken = [], cachedAuthHeader = []\<rparr>
         \<lparr>req_method = ''GET'', req_url = None,
          req_headers = [''authorization'' \<mapsto> ''Bearer s3cret'', ''host'' \<mapsto> ''h'']\<rparr> ''s3cret'')
   \<and> fst (isAuthorized \<lparr>cachedToken = [], cachedAuthHeader = []\<rparr>
         \<lparr>req_method = ''GET'', req_url = None,
          req_headers = [''authorization'' \<mapsto> ''Bearer s3cret'', ''host'' \<mapsto> ''h'']\<rparr> ''s3cret'')"
  using isAuthorized_cache_independent
    [of "\<lparr>req_method = ''POST'', req_url = Some ''/v1/messages'',
          req_headers = [''authorization'' \<mapsto> ''Bearer s3cret'']\<rparr>"
        "\<lparr>req_method = ''GET'', req_url = None,
          req_headers = [''authorization'' \<mapsto> ''Bearer s3cret'', ''host'' \<mapsto> ''h'']\<rparr>"
        "\<lparr>cachedToken = ''old'', cachedAuthHeader = ''Bearer old''\<rparr>" "''s3cret''"
        "\<lparr>cachedToken = [], cachedAuthHeader = []\<rparr>"]
  by (simp add: isAuthorized_def startsWith_def js_trim_def js_space_def)

end
